theory Spec2Isabelle
  imports Complex_Main
begin

section \<open>Go library functions used by the adapters\<close>

text \<open>
  Go's \<^verbatim>\<open>int\<close> is 64 bits wide on the platforms the provider is built for.  Values
  are modelled as mathematical integers; \<open>go_int\<close> is the range of the machine type.
  No arithmetic is done on them by the code below, only conversion from and to text,
  so the range matters in exactly one place: \<^verbatim>\<open>strconv.Atoi\<close> rejects a numeral
  outside it.
\<close>

definition go_int :: "int \<Rightarrow> bool" where
  "go_int i \<longleftrightarrow> - (2 ^ 63) \<le> i \<and> i < 2 ^ 63"

text \<open>
  \<^verbatim>\<open>strconv.Itoa\<close>: the decimal digits are looked up in the table
  \<^verbatim>\<open>"0123456789..."\<close>, most significant first, after a minus sign for a negative
  number.
\<close>

definition digit_byte :: "nat \<Rightarrow> char" where
  "digit_byte k = ''0123456789'' ! k"

fun format_nat :: "nat \<Rightarrow> string" where
  "format_nat n =
     (if n < 10 then [digit_byte n] else format_nat (n div 10) @ [digit_byte (n mod 10)])"

declare format_nat.simps [simp del]

definition Itoa :: "int \<Rightarrow> string" where
  "Itoa i = (if i < 0 then CHR ''-'' # format_nat (nat (- i)) else format_nat (nat i))"

text \<open>
  \<^verbatim>\<open>strconv.Atoi\<close>: an optional sign, then at least one byte, every byte a decimal
  digit (\<^verbatim>\<open>ch -= '0'; if ch > 9 { error }\<close>), accumulated as \<^verbatim>\<open>n = n*10 + ch\<close>; a
  value outside the 64-bit range is an error as well.  \<open>None\<close> stands for the
  non-nil \<^verbatim>\<open>err\<close>.
\<close>

definition byte_digit :: "char \<Rightarrow> nat option" where
  "byte_digit c =
     (let b = (of_char c :: nat) in if 48 \<le> b \<and> b \<le> 57 then Some (b - 48) else None)"

fun parse_digits :: "string \<Rightarrow> nat \<Rightarrow> nat option" where
  "parse_digits [] n = Some n"
| "parse_digits (c # cs) n =
     (case byte_digit c of None \<Rightarrow> None | Some k \<Rightarrow> parse_digits cs (n * 10 + k))"

definition Atoi :: "string \<Rightarrow> int option" where
  "Atoi s =
     (case s of
        [] \<Rightarrow> None
      | c # cs \<Rightarrow>
          (let neg = (c = CHR ''-'');
               ds = (if c = CHR ''-'' \<or> c = CHR ''+'' then cs else s)
           in if ds = [] then None
              else (case parse_digits ds 0 of
                      None \<Rightarrow> None
                    | Some n \<Rightarrow>
                        (let v = (if neg then - int n else int n)
                         in if go_int v then Some v else None))))"

text \<open>
  \<^verbatim>\<open>strings.Split(s, sep)\<close> for a separator of one byte: the pieces of \<open>s\<close> between
  the occurrences of the separator, one more piece than there are separators (so the
  result is never empty, and a string without separator is returned as its only piece).
\<close>

fun Split :: "string \<Rightarrow> char \<Rightarrow> string list" where
  "Split [] sep = [[]]"
| "Split (c # cs) sep =
     (if c = sep then [] # Split cs sep
      else (case Split cs sep of [] \<Rightarrow> [[c]] | piece # pieces \<Rightarrow> (c # piece) # pieces))"

section \<open>The plugin SDK's resource data\<close>

text \<open>
  \<^verbatim>\<open>schema.ValueType\<close> and the values a \<^verbatim>\<open>schema.ResourceData\<close> holds.  A list, a
  set and a map carry their elements; nothing below computes with a float, which is
  kept as the number it denotes.
\<close>

datatype ValueType =
  TypeInvalid | TypeBool | TypeInt | TypeFloat | TypeString | TypeList | TypeMap | TypeSet

datatype val =
  VBool bool
| VInt int
| VFloat real
| VString string
| VList "val list"
| VSet "val list"
| VMap "(string \<times> val) list"

fun zero_value :: "ValueType \<Rightarrow> val option" where
  "zero_value TypeBool = Some (VBool False)"
| "zero_value TypeInt = Some (VInt 0)"
| "zero_value TypeFloat = Some (VFloat 0)"
| "zero_value TypeString = Some (VString [])"
| "zero_value TypeList = Some (VList [])"
| "zero_value TypeSet = Some (VSet [])"
| "zero_value TypeMap = Some (VMap [])"
| "zero_value TypeInvalid = None"

fun has_type :: "ValueType \<Rightarrow> val \<Rightarrow> bool" where
  "has_type TypeBool (VBool b) = True"
| "has_type TypeInt (VInt i) = go_int i"
| "has_type TypeFloat (VFloat x) = True"
| "has_type TypeString (VString s) = True"
| "has_type TypeList (VList xs) = True"
| "has_type TypeSet (VSet xs) = True"
| "has_type TypeMap (VMap kvs) = True"
| "has_type _ _ = False"

text \<open>
  A resource data object: its identifier, the schema it was made for, the values of the
  prior state (what \<^verbatim>\<open>GetChange\<close> reports as old) and the current values.  A key
  without a value is unset; \<^verbatim>\<open>d.Set(key, nil)\<close> unsets it.  The object is mutated
  in place by the Go code, so every function that writes to it returns the new object.
\<close>

record ResourceData =
  rd_id :: string
  rd_schema :: "string \<rightharpoonup> ValueType"
  rd_prior :: "string \<rightharpoonup> val"
  rd_vals :: "string \<rightharpoonup> val"

text \<open>
  \<^verbatim>\<open>d.Get(key)\<close> returns the stored value, or the zero value of the key's schema type
  when the key is unset; for a key the schema does not have it returns the nil
  interface, here \<open>None\<close>.
\<close>

definition Get :: "ResourceData \<Rightarrow> string \<Rightarrow> val option" where
  "Get d key =
     (case rd_schema d key of
        None \<Rightarrow> None
      | Some ty \<Rightarrow> (case rd_vals d key of Some v \<Rightarrow> Some v | None \<Rightarrow> zero_value ty))"

text \<open>
  The SDK reads a value by the schema type of its key and panics (\<^verbatim>\<open>Unknown type\<close>)
  when that type is not one of the value types, which is the case for
  \<^verbatim>\<open>TypeInvalid\<close>; \<open>Get\<close> is the result of the call where it returns.  The fixed
  keys of the schemas below have proper types, so only a key that comes from the
  attributes of a layer type can be of this kind.
\<close>

definition Get_unknown_type :: "ResourceData \<Rightarrow> string \<Rightarrow> bool" where
  "Get_unknown_type d key \<longleftrightarrow> rd_schema d key = Some TypeInvalid"

definition GetOld :: "ResourceData \<Rightarrow> string \<Rightarrow> val option" where
  "GetOld d key =
     (case rd_schema d key of
        None \<Rightarrow> None
      | Some ty \<Rightarrow> (case rd_prior d key of Some v \<Rightarrow> Some v | None \<Rightarrow> zero_value ty))"

definition GetChange :: "ResourceData \<Rightarrow> string \<Rightarrow> val option \<times> val option" where
  "GetChange d key = (GetOld d key, Get d key)"

definition HasChange :: "ResourceData \<Rightarrow> string \<Rightarrow> bool" where
  "HasChange d key = (case GetChange d key of (old, new) \<Rightarrow> old \<noteq> new)"

text \<open>
  \<^verbatim>\<open>d.GetOk(key)\<close>: the value, and whether it is set to something other than the
  zero value of its type.
\<close>

definition GetOk :: "ResourceData \<Rightarrow> string \<Rightarrow> val option \<times> bool" where
  "GetOk d key =
     (case rd_schema d key of
        None \<Rightarrow> (None, False)
      | Some ty \<Rightarrow> (Get d key, Get d key \<noteq> zero_value ty))"

text \<open>
  \<^verbatim>\<open>d.Set(key, value)\<close>; the adapters discard the error it returns.  The second
  argument is \<open>None\<close> for \<^verbatim>\<open>nil\<close> (also a nil pointer), which unsets the key.
\<close>

definition Set :: "ResourceData \<Rightarrow> string \<Rightarrow> val option \<Rightarrow> ResourceData" where
  "Set d key v = d\<lparr>rd_vals := (rd_vals d)(key := v)\<rparr>"

definition SetId :: "ResourceData \<Rightarrow> string \<Rightarrow> ResourceData" where
  "SetId d v = d\<lparr>rd_id := v\<rparr>"

text \<open>
  What can go wrong: an error value returned to the caller, or one of Go's run-time
  panics (a failed type assertion \<^verbatim>\<open>value.(T)\<close>, an index out of range, a nil
  pointer dereference), or the panic of the SDK on a key of unknown type.
\<close>

datatype error =
  UnsupportedAttributeType ValueType
| ApiError string
| TypeAssertionPanic
| IndexOutOfRangePanic
| NilDereferencePanic
| UnknownTypePanic

definition is_panic :: "error \<Rightarrow> bool" where
  "is_panic e \<longleftrightarrow>
     e = TypeAssertionPanic \<or> e = IndexOutOfRangePanic \<or> e = NilDereferencePanic \<or>
     e = UnknownTypePanic"

section \<open>OpsWorks layers: the attribute bag\<close>

record opsworksLayerTypeAttribute =
  AttrName :: string
  Type :: ValueType
  Default :: "val option"
  Required :: bool
  WriteOnly :: bool

text \<open>
  \<open>Attributes\<close> is a Go map from the local key to the attribute's definition.  It is
  kept as the list of its entries in the order in which one \<^verbatim>\<open>range\<close> loop visits
  them: Go leaves that order open, so a statement about the code holds for a layer type
  only if it holds for every arrangement of the entries.  The keys of a map are
  distinct.
\<close>

record opsworksLayerType =
  TypeName :: string
  DefaultLayerName :: string
  Attributes :: "(string \<times> opsworksLayerTypeAttribute) list"
  CustomShortName :: bool

definition opsworksTrueString :: string where
  "opsworksTrueString = ''true''"

definition opsworksFalseString :: string where
  "opsworksFalseString = ''false''"

text \<open>
  The remote attribute bag, \<^verbatim>\<open>map[string]*string\<close>: a key is absent (\<open>None\<close>),
  present with a nil pointer (\<open>Some None\<close>) or present with a string.
\<close>

type_synonym bag = "string \<rightharpoonup> string option"

text \<open>
  \<^verbatim>\<open>AttributeMap\<close>, the loop over the entries first.  The body starts with
  \<^verbatim>\<open>d.Get(key)\<close>, which panics on a key of unknown type before the
  \<^verbatim>\<open>switch\<close> is reached.  The type assertions \<^verbatim>\<open>value.(string)\<close>,
  \<^verbatim>\<open>value.(int)\<close> and \<^verbatim>\<open>value.(bool)\<close> panic on a value of another type.
\<close>

fun AttributeMap_range ::
  "(string \<times> opsworksLayerTypeAttribute) list \<Rightarrow> ResourceData \<Rightarrow> bag \<Rightarrow> error + bag" where
  "AttributeMap_range [] d attrs = Inr attrs"
| "AttributeMap_range ((key, def) # rest) d attrs =
     (if Get_unknown_type d key then Inl UnknownTypePanic
      else
      let value = Get d key in
      case Type def of
        TypeString \<Rightarrow>
          (case value of
             Some (VString strValue) \<Rightarrow>
               AttributeMap_range rest d (attrs(AttrName def \<mapsto> Some strValue))
           | _ \<Rightarrow> Inl TypeAssertionPanic)
      | TypeInt \<Rightarrow>
          (case value of
             Some (VInt intValue) \<Rightarrow>
               AttributeMap_range rest d (attrs(AttrName def \<mapsto> Some (Itoa intValue)))
           | _ \<Rightarrow> Inl TypeAssertionPanic)
      | TypeBool \<Rightarrow>
          (case value of
             Some (VBool boolValue) \<Rightarrow>
               (if boolValue
                then AttributeMap_range rest d (attrs(AttrName def \<mapsto> Some opsworksTrueString))
                else AttributeMap_range rest d (attrs(AttrName def \<mapsto> Some opsworksFalseString)))
           | _ \<Rightarrow> Inl TypeAssertionPanic)
      | _ \<Rightarrow> Inl (UnsupportedAttributeType (Type def)))"

definition AttributeMap :: "opsworksLayerType \<Rightarrow> ResourceData \<Rightarrow> error + bag" where
  "AttributeMap lt d = AttributeMap_range (Attributes lt) d Map.empty"

text \<open>
  \<^verbatim>\<open>SetAttributeMap\<close>.  The result is the resource data as the call leaves it and
  the error returned (\<open>None\<close> for \<^verbatim>\<open>nil\<close>).  A write-only entry is skipped with
  \<^verbatim>\<open>continue\<close>; an entry the bag lacks (or holds as nil) is unset and the loop goes
  on; an entry the bag has is decoded, and after its \<^verbatim>\<open>switch\<close> the function
  executes \<^verbatim>\<open>return nil\<close>, so the remaining entries are not visited.
\<close>

fun SetAttributeMap_range ::
  "(string \<times> opsworksLayerTypeAttribute) list \<Rightarrow> ResourceData \<Rightarrow> bag
     \<Rightarrow> ResourceData \<times> error option" where
  "SetAttributeMap_range [] d attrs = (d, None)"
| "SetAttributeMap_range ((key, def) # rest) d attrs =
     (if WriteOnly def then SetAttributeMap_range rest d attrs
      else
        (case attrs (AttrName def) of
           Some (Some strValue) \<Rightarrow>
             (case Type def of
                TypeString \<Rightarrow> (Set d key (Some (VString strValue)), None)
              | TypeInt \<Rightarrow>
                  (case Atoi strValue of
                     Some intValue \<Rightarrow> (Set d key (Some (VInt intValue)), None)
                   | None \<Rightarrow> (Set d key None, None))
              | TypeBool \<Rightarrow>
                  (let boolValue = (if strValue = opsworksFalseString then False else True)
                   in (Set d key (Some (VBool boolValue)), None))
              | _ \<Rightarrow> (d, Some (UnsupportedAttributeType (Type def))))
         | _ \<Rightarrow> SetAttributeMap_range rest (Set d key None) attrs))"

definition SetAttributeMap ::
  "opsworksLayerType \<Rightarrow> ResourceData \<Rightarrow> bag \<Rightarrow> ResourceData \<times> error option" where
  "SetAttributeMap lt d attrs = SetAttributeMap_range (Attributes lt) d attrs"

section \<open>OpsWorks layers: volume configurations\<close>

text \<open>
  Type assertions on what \<^verbatim>\<open>d.Get\<close> or a map lookup returned.  A missing map key
  yields the nil interface, on which every assertion panics.
\<close>

definition as_string :: "val option \<Rightarrow> error + string" where
  "as_string v = (case v of Some (VString s) \<Rightarrow> Inr s | _ \<Rightarrow> Inl TypeAssertionPanic)"

definition as_int :: "val option \<Rightarrow> error + int" where
  "as_int v = (case v of Some (VInt i) \<Rightarrow> Inr i | _ \<Rightarrow> Inl TypeAssertionPanic)"

definition as_bool :: "val option \<Rightarrow> error + bool" where
  "as_bool v = (case v of Some (VBool b) \<Rightarrow> Inr b | _ \<Rightarrow> Inl TypeAssertionPanic)"

definition as_list :: "val option \<Rightarrow> error + val list" where
  "as_list v = (case v of Some (VList xs) \<Rightarrow> Inr xs | _ \<Rightarrow> Inl TypeAssertionPanic)"

definition as_set :: "val option \<Rightarrow> error + val list" where
  "as_set v = (case v of Some (VSet xs) \<Rightarrow> Inr xs | _ \<Rightarrow> Inl TypeAssertionPanic)"

definition as_map :: "val option \<Rightarrow> error + (string \<times> val) list" where
  "as_map v = (case v of Some (VMap kvs) \<Rightarrow> Inr kvs | _ \<Rightarrow> Inl TypeAssertionPanic)"

text \<open>Sequencing of steps that may fail: the first failure is the result.\<close>

definition and_then :: "error + 'a \<Rightarrow> ('a \<Rightarrow> error + 'b) \<Rightarrow> error + 'b" where
  "and_then r f = (case r of Inl e \<Rightarrow> Inl e | Inr x \<Rightarrow> f x)"

text \<open>\<^verbatim>\<open>opsworks.VolumeConfiguration\<close>: every field is a pointer, \<open>None\<close> when nil.\<close>

record VolumeConfiguration =
  MountPoint :: "string option"
  NumberOfDisks :: "int option"
  Size :: "int option"
  VolumeType :: "string option"
  Encrypted :: "bool option"
  Iops :: "int option"
  RaidLevel :: "int option"

text \<open>
  The body of the loop of \<^verbatim>\<open>VolumeConfigurations\<close> for one element of the
  \<^verbatim>\<open>ebs_volume\<close> set: the struct literal, then the two optional fields.
\<close>

definition VolumeConfigurations_element :: "val \<Rightarrow> error + VolumeConfiguration" where
  "VolumeConfigurations_element element =
     and_then (as_map (Some element)) (\<lambda>volumeData.
     and_then (as_string (map_of volumeData ''mount_point'')) (\<lambda>mount_point.
     and_then (as_int (map_of volumeData ''number_of_disks'')) (\<lambda>number_of_disks.
     and_then (as_int (map_of volumeData ''size'')) (\<lambda>size.
     and_then (as_string (map_of volumeData ''type'')) (\<lambda>type.
     and_then (as_bool (map_of volumeData ''encrypted'')) (\<lambda>encrypted.
       (let result_i = \<lparr>MountPoint = Some mount_point, NumberOfDisks = Some number_of_disks,
                         Size = Some size, VolumeType = Some type, Encrypted = Some encrypted,
                         Iops = None, RaidLevel = None\<rparr>
        in
     and_then (as_int (map_of volumeData ''iops'')) (\<lambda>iops.
       (let result_i = (if iops \<noteq> 0 then result_i\<lparr>Iops := Some iops\<rparr> else result_i)
        in
     and_then (as_string (map_of volumeData ''raid_level'')) (\<lambda>raidLevelStr.
       Inr (if raidLevelStr \<noteq> []
            then (case Atoi raidLevelStr of
                    Some raidLevel \<Rightarrow> result_i\<lparr>RaidLevel := Some raidLevel\<rparr>
                  | None \<Rightarrow> result_i)
            else result_i)))))))))))"

fun VolumeConfigurations_loop :: "val list \<Rightarrow> error + VolumeConfiguration list" where
  "VolumeConfigurations_loop [] = Inr []"
| "VolumeConfigurations_loop (element # rest) =
     and_then (VolumeConfigurations_element element) (\<lambda>result_i.
     and_then (VolumeConfigurations_loop rest) (\<lambda>results. Inr (result_i # results)))"

definition VolumeConfigurations ::
  "opsworksLayerType \<Rightarrow> ResourceData \<Rightarrow> error + VolumeConfiguration list" where
  "VolumeConfigurations lt d =
     and_then (as_set (Get d ''ebs_volume'')) VolumeConfigurations_loop"

section \<open>OpsWorks layers: update\<close>

text \<open>
  The request of \<^verbatim>\<open>UpdateLayer\<close>.  The helpers of package \<^verbatim>\<open>flex\<close> that turn a
  stored list or set into a slice of string pointers are not part of these sources; the
  lists are kept as they are stored.
\<close>

record Recipes =
  Configure :: "val list"
  Deploy :: "val list"
  Setup :: "val list"
  Shutdown :: "val list"
  Undeploy :: "val list"

record ShutdownEventConfiguration =
  DelayUntilElbConnectionsDrained :: bool
  ExecutionTimeout :: int

record UpdateLayerInput =
  req_LayerId :: string
  req_AutoAssignElasticIps :: bool
  req_AutoAssignPublicIps :: bool
  req_CustomInstanceProfileArn :: string
  req_CustomRecipes :: Recipes
  req_CustomSecurityGroupIds :: "val list"
  req_EnableAutoHealing :: bool
  req_InstallUpdatesOnBoot :: bool
  req_LifecycleEventConfiguration :: ShutdownEventConfiguration
  req_Name :: string
  req_Packages :: "val list"
  req_UseEbsOptimizedInstances :: bool
  req_Attributes :: bag
  req_VolumeConfigurations :: "VolumeConfiguration list"
  req_Shortname :: string
  req_CustomJson :: string

definition CustomRecipes :: "opsworksLayerType \<Rightarrow> ResourceData \<Rightarrow> error + Recipes" where
  "CustomRecipes lt d =
     and_then (as_list (Get d ''custom_configure_recipes'')) (\<lambda>configure.
     and_then (as_list (Get d ''custom_deploy_recipes'')) (\<lambda>deploy.
     and_then (as_list (Get d ''custom_setup_recipes'')) (\<lambda>setup.
     and_then (as_list (Get d ''custom_shutdown_recipes'')) (\<lambda>shutdown.
     and_then (as_list (Get d ''custom_undeploy_recipes'')) (\<lambda>undeploy.
       Inr \<lparr>Configure = configure, Deploy = deploy, Setup = setup,
            Shutdown = shutdown, Undeploy = undeploy\<rparr>)))))"

definition LifecycleEventConfiguration ::
  "opsworksLayerType \<Rightarrow> ResourceData \<Rightarrow> error + ShutdownEventConfiguration" where
  "LifecycleEventConfiguration lt d =
     and_then (as_bool (Get d ''drain_elb_on_shutdown'')) (\<lambda>drain.
     and_then (as_int (Get d ''instance_shutdown_timeout'')) (\<lambda>timeout.
       Inr \<lparr>DelayUntilElbConnectionsDrained = drain, ExecutionTimeout = timeout\<rparr>))"

text \<open>
  The request literal of \<^verbatim>\<open>Update\<close> with the two assignments that follow it
  (\<^verbatim>\<open>Shortname\<close>, \<^verbatim>\<open>CustomJson\<close>), in the order in which Go evaluates the fields.
\<close>

definition Update_request ::
  "opsworksLayerType \<Rightarrow> ResourceData \<Rightarrow> bag \<Rightarrow> error + UpdateLayerInput" where
  "Update_request lt d attributes =
     and_then (as_bool (Get d ''auto_assign_elastic_ips'')) (\<lambda>auto_assign_elastic_ips.
     and_then (as_bool (Get d ''auto_assign_public_ips'')) (\<lambda>auto_assign_public_ips.
     and_then (as_string (Get d ''custom_instance_profile_arn'')) (\<lambda>custom_instance_profile_arn.
     and_then (CustomRecipes lt d) (\<lambda>custom_recipes.
     and_then (as_set (Get d ''custom_security_group_ids'')) (\<lambda>custom_security_group_ids.
     and_then (as_bool (Get d ''auto_healing'')) (\<lambda>auto_healing.
     and_then (as_bool (Get d ''install_updates_on_boot'')) (\<lambda>install_updates_on_boot.
     and_then (LifecycleEventConfiguration lt d) (\<lambda>lifecycle.
     and_then (as_string (Get d ''name'')) (\<lambda>name.
     and_then (as_set (Get d ''system_packages'')) (\<lambda>system_packages.
     and_then (as_bool (Get d ''use_ebs_optimized_instances'')) (\<lambda>use_ebs_optimized_instances.
     and_then (VolumeConfigurations lt d) (\<lambda>volume_configurations.
     and_then (if CustomShortName lt then as_string (Get d ''short_name'') else Inr (TypeName lt))
       (\<lambda>shortname.
     and_then (as_string (Get d ''custom_json'')) (\<lambda>custom_json.
       Inr \<lparr>req_LayerId = rd_id d,
            req_AutoAssignElasticIps = auto_assign_elastic_ips,
            req_AutoAssignPublicIps = auto_assign_public_ips,
            req_CustomInstanceProfileArn = custom_instance_profile_arn,
            req_CustomRecipes = custom_recipes,
            req_CustomSecurityGroupIds = custom_security_group_ids,
            req_EnableAutoHealing = auto_healing,
            req_InstallUpdatesOnBoot = install_updates_on_boot,
            req_LifecycleEventConfiguration = lifecycle,
            req_Name = name,
            req_Packages = system_packages,
            req_UseEbsOptimizedInstances = use_ebs_optimized_instances,
            req_Attributes = attributes,
            req_VolumeConfigurations = volume_configurations,
            req_Shortname = shortname,
            req_CustomJson = custom_json\<rparr>))))))))))))))"

text \<open>
  The OpsWorks connection, as far as \<^verbatim>\<open>Update\<close> uses it: each operation answers a
  request with an error or with none.  \<^verbatim>\<open>UpdateTags\<close> is the tagging helper of the
  package, which is not part of these sources either.  The calls a run issues are
  recorded in order.
\<close>

record OpsWorksConn =
  DetachElasticLoadBalancer :: "string \<Rightarrow> string \<Rightarrow> error option"
  AttachElasticLoadBalancer :: "string \<Rightarrow> string \<Rightarrow> error option"
  UpdateLayer :: "UpdateLayerInput \<Rightarrow> error option"
  UpdateTags :: "string \<Rightarrow> val option \<Rightarrow> val option \<Rightarrow> error option"

datatype api_call =
  DetachElasticLoadBalancerCall string string
| AttachElasticLoadBalancerCall string string
| UpdateLayerCall UpdateLayerInput
| UpdateTagsCall string "val option" "val option"

text \<open>
  How \<^verbatim>\<open>Update\<close> ends: with an error or a panic, or by handing over to
  \<^verbatim>\<open>lt.Read(d, meta)\<close>, whose result it returns.  \<^verbatim>\<open>Read\<close> only queries the
  remote side and is not followed further here.
\<close>

datatype update_end = Failed error | ReturnsRead

text \<open>
  The block of \<^verbatim>\<open>Update\<close> guarded by \<^verbatim>\<open>d.HasChange("elastic_load_balancer")\<close>:
  the calls it issues and the error it makes \<^verbatim>\<open>Update\<close> return, if any.
\<close>

definition Update_elastic_load_balancer ::
  "ResourceData \<Rightarrow> OpsWorksConn \<Rightarrow> api_call list \<times> error option" where
  "Update_elastic_load_balancer d conn =
     (if HasChange d ''elastic_load_balancer'' then
        (case GetChange d ''elastic_load_balancer'' of (lbo, lbn) \<Rightarrow>
           (case as_string lbo of
              Inl e \<Rightarrow> ([], Some e)
            | Inr loadBalancerOld \<Rightarrow>
                (case as_string lbn of
                   Inl e \<Rightarrow> ([], Some e)
                 | Inr loadBalancerNew \<Rightarrow>
                     (let detach =
                        (if loadBalancerOld \<noteq> []
                         then ([DetachElasticLoadBalancerCall loadBalancerOld (rd_id d)],
                               DetachElasticLoadBalancer conn loadBalancerOld (rd_id d))
                         else ([], None))
                      in case snd detach of
                           Some err \<Rightarrow> (fst detach, Some err)
                         | None \<Rightarrow>
                             (if loadBalancerNew \<noteq> []
                              then (fst detach @
                                      [AttachElasticLoadBalancerCall loadBalancerNew (rd_id d)],
                                    AttachElasticLoadBalancer conn loadBalancerNew (rd_id d))
                              else (fst detach, None))))))
      else ([], None))"

definition Update ::
  "opsworksLayerType \<Rightarrow> ResourceData \<Rightarrow> OpsWorksConn \<Rightarrow> api_call list \<times> update_end" where
  "Update lt d conn =
     (case AttributeMap lt d of
        Inl err \<Rightarrow> ([], Failed err)
      | Inr attributes \<Rightarrow>
          (case Update_request lt d attributes of
             Inl err \<Rightarrow> ([], Failed err)
           | Inr req \<Rightarrow>
               (case Update_elastic_load_balancer d conn of
                  (calls, Some err) \<Rightarrow> (calls, Failed err)
                | (calls, None) \<Rightarrow>
                    (case UpdateLayer conn req of
                       Some err \<Rightarrow> (calls @ [UpdateLayerCall req], Failed err)
                     | None \<Rightarrow>
                         (if HasChange d ''tags_all'' then
                            (case GetChange d ''tags_all'' of (o_tags, n_tags) \<Rightarrow>
                               (case as_string (Get d ''arn'') of
                                  Inl err \<Rightarrow> (calls @ [UpdateLayerCall req], Failed err)
                                | Inr arn \<Rightarrow>
                                    (case UpdateTags conn arn o_tags n_tags of
                                       Some err \<Rightarrow>
                                         (calls @ [UpdateLayerCall req,
                                                   UpdateTagsCall arn o_tags n_tags],
                                          Failed err)
                                     | None \<Rightarrow>
                                         (calls @ [UpdateLayerCall req,
                                                   UpdateTagsCall arn o_tags n_tags],
                                          ReturnsRead))))
                          else (calls @ [UpdateLayerCall req], ReturnsRead))))))"

text \<open>The load-balancer calls among the calls of a run, in the order issued.\<close>

fun is_load_balancer_call :: "api_call \<Rightarrow> bool" where
  "is_load_balancer_call (DetachElasticLoadBalancerCall name layer) = True"
| "is_load_balancer_call (AttachElasticLoadBalancerCall name layer) = True"
| "is_load_balancer_call _ = False"

definition load_balancer_calls :: "api_call list \<Rightarrow> api_call list" where
  "load_balancer_calls calls = filter is_load_balancer_call calls"

section \<open>EC2: the IPAM pool data source\<close>

record IpamPool =
  IpamPoolId :: "string option"
  PubliclyAdvertisable :: "bool option"
  IpamScopeArn :: "string option"
  AllocationResourceTags :: "(string \<times> string) list"
  AutoImport :: "bool option"
  IpamPoolArn :: "string option"
  Description :: "string option"
  IpamScopeType :: "string option"
  Locale :: "string option"
  PoolDepth :: "int option"
  AwsService :: "string option"
  SourceIpamPoolId :: "string option"
  State :: "string option"

record ec2_Filter =
  filter_Name :: string
  filter_Values :: "string list"

record DescribeIpamPoolsInput =
  IpamPoolIds :: "string list option"
  Filters :: "ec2_Filter list option"

text \<open>The list of pools of an answer; an element can be a nil pointer.\<close>

record DescribeIpamPoolsOutput =
  IpamPools :: "IpamPool option list"

text \<open>
  What the read function takes from outside this file: the remote operation
  \<^verbatim>\<open>DescribeIpamPools\<close> (which answers with an error or with an output, possibly
  nil), and two helpers of the package that these sources do not contain,
  \<^verbatim>\<open>BuildFiltersDataSource\<close> and the conversion of the allocation tags to a map
  (\<^verbatim>\<open>KeyValueTags(ec2TagsFromIpamAllocationTags(...)).Map()\<close>).
\<close>

record EC2Conn =
  DescribeIpamPools :: "DescribeIpamPoolsInput \<Rightarrow> error + DescribeIpamPoolsOutput option"
  BuildFiltersDataSource :: "val list \<Rightarrow> ec2_Filter list"
  AllocationResourceTagsMap :: "(string \<times> string) list \<Rightarrow> val"

text \<open>The first part of the read: the request, built from the two optional arguments.\<close>

definition dataSourceVPCIpamPoolRead_input ::
  "ResourceData \<Rightarrow> EC2Conn \<Rightarrow> error + DescribeIpamPoolsInput" where
  "dataSourceVPCIpamPoolRead_input d conn =
     and_then
       (case GetOk d ''ipam_pool_id'' of
          (v, True) \<Rightarrow> and_then (as_string v) (\<lambda>s. Inr (Some [s]))
        | (v, False) \<Rightarrow> Inr None)
       (\<lambda>ids.
     and_then
       (case GetOk d ''filter'' of
          (filters, True) \<Rightarrow>
            and_then (as_set filters) (\<lambda>fs. Inr (Some (BuildFiltersDataSource conn fs)))
        | (filters, False) \<Rightarrow> Inr None)
       (\<lambda>fs. Inr \<lparr>IpamPoolIds = ids, Filters = fs\<rparr>))"

text \<open>
  The projection of the selected pool onto the resource data, from \<^verbatim>\<open>d.SetId\<close> on.
  \<^verbatim>\<open>*pool.IpamScopeArn\<close> panics on a nil pointer, and the index \<^verbatim>\<open>[1]\<close> panics
  when the split has a single piece.
\<close>

definition dataSourceVPCIpamPoolRead_pool ::
  "ResourceData \<Rightarrow> EC2Conn \<Rightarrow> IpamPool \<Rightarrow> error + ResourceData" where
  "dataSourceVPCIpamPoolRead_pool d conn pool =
     (let d = SetId d (case IpamPoolId pool of Some s \<Rightarrow> s | None \<Rightarrow> []);
          d = (if PubliclyAdvertisable pool \<noteq> None
               then Set d ''publicly_advertisable'' (map_option VBool (PubliclyAdvertisable pool))
               else d)
      in case IpamScopeArn pool of
           None \<Rightarrow> Inl NilDereferencePanic
         | Some arn \<Rightarrow>
             (let pieces = Split arn CHR ''/'' in
              if length pieces \<le> 1 then Inl IndexOutOfRangePanic
              else
                (let scopeId = pieces ! 1;
                     d = Set d ''allocation_resource_tags''
                           (Some (AllocationResourceTagsMap conn (AllocationResourceTags pool)));
                     d = Set d ''auto_import'' (map_option VBool (AutoImport pool));
                     d = Set d ''arn'' (map_option VString (IpamPoolArn pool));
                     d = Set d ''description'' (map_option VString (Description pool));
                     d = Set d ''ipam_scope_id'' (Some (VString scopeId));
                     d = Set d ''ipam_scope_type'' (map_option VString (IpamScopeType pool));
                     d = Set d ''locale'' (map_option VString (Locale pool));
                     d = Set d ''pool_depth'' (map_option VInt (PoolDepth pool));
                     d = Set d ''aws_service'' (map_option VString (AwsService pool));
                     d = Set d ''source_ipam_pool_id'' (map_option VString (SourceIpamPoolId pool));
                     d = Set d ''state'' (map_option VString (State pool))
                 in Inr d)))"

definition dataSourceVPCIpamPoolRead :: "ResourceData \<Rightarrow> EC2Conn \<Rightarrow> error + ResourceData" where
  "dataSourceVPCIpamPoolRead d conn =
     and_then (dataSourceVPCIpamPoolRead_input d conn) (\<lambda>input.
       (case DescribeIpamPools conn input of
          Inl err \<Rightarrow> Inl err
        | Inr output \<Rightarrow>
            (case output of
               None \<Rightarrow> Inr d
             | Some out \<Rightarrow>
                 (case IpamPools out of
                    [] \<Rightarrow> Inr d
                  | None # others \<Rightarrow> Inr d
                  | Some pool # others \<Rightarrow> dataSourceVPCIpamPoolRead_pool d conn pool))))"

section \<open>Notions used in the statements\<close>

text \<open>
  The value types the attribute bag can carry, and the text the specification gives for
  a value: the literal tokens for a boolean, the decimal numeral for an integer, a
  string as it is.
\<close>

definition supported_type :: "ValueType \<Rightarrow> bool" where
  "supported_type ty \<longleftrightarrow> ty = TypeString \<or> ty = TypeInt \<or> ty = TypeBool"

fun spec_encode :: "val \<Rightarrow> string" where
  "spec_encode (VBool b) = (if b then ''true'' else ''false'')"
| "spec_encode (VInt i) = Itoa i"
| "spec_encode (VString s) = s"
| "spec_encode _ = []"

text \<open>
  A state matches the declared types of a layer type when its schema gives every
  attribute key the declared type of the attribute and \<^verbatim>\<open>d.Get\<close> yields, for every
  attribute of a supported type, a value of that type (an integer within the range of
  Go's \<^verbatim>\<open>int\<close>).  This is what the SDK guarantees for a resource data object made
  from the schema that \<^verbatim>\<open>SchemaResource\<close> builds out of the same attributes.
\<close>

definition value_matches :: "ResourceData \<Rightarrow> string \<times> opsworksLayerTypeAttribute \<Rightarrow> bool" where
  "value_matches d entry =
     (case entry of (key, def) \<Rightarrow>
        rd_schema d key = Some (Type def) \<and>
        (supported_type (Type def) \<longrightarrow>
           (case Get d key of Some v \<Rightarrow> has_type (Type def) v | None \<Rightarrow> False)))"

text \<open>
  The failure of \<^verbatim>\<open>AttributeMap\<close> at an attribute of a type it does not support:
  the panic of \<^verbatim>\<open>d.Get\<close> for the invalid type, the error of the \<^verbatim>\<open>default\<close>
  branch for a float, a list, a map or a set.
\<close>

definition unsupported_failure :: "ValueType \<Rightarrow> error" where
  "unsupported_failure ty =
     (if ty = TypeInvalid then UnknownTypePanic else UnsupportedAttributeType ty)"

definition state_matches :: "opsworksLayerType \<Rightarrow> ResourceData \<Rightarrow> bool" where
  "state_matches lt d = list_all (value_matches d) (Attributes lt)"

text \<open>The remote keys of the entries of a layer type, in the order of the entries.\<close>

definition attr_names :: "(string \<times> opsworksLayerTypeAttribute) list \<Rightarrow> string list" where
  "attr_names entries = map (\<lambda>entry. AttrName (snd entry)) entries"


subsection \<open>Concrete layer types and states\<close>

text \<open>A layer type with one attribute of each supported type and a write-only one.\<close>

definition stats_password_attribute :: opsworksLayerTypeAttribute where
  "stats_password_attribute =
     \<lparr>AttrName = ''HaproxyStatsPassword'', Type = TypeString, Default = None,
      Required = True, WriteOnly = True\<rparr>"

definition example_attributes :: "(string \<times> opsworksLayerTypeAttribute) list" where
  "example_attributes =
     [(''allocated_memory'',
         \<lparr>AttrName = ''MemcachedMemory'', Type = TypeInt, Default = Some (VInt 512),
          Required = False, WriteOnly = False\<rparr>),
      (''stats_enabled'',
         \<lparr>AttrName = ''EnableHaproxyStats'', Type = TypeBool, Default = Some (VBool True),
          Required = False, WriteOnly = False\<rparr>),
      (''stats_url'',
         \<lparr>AttrName = ''HaproxyStatsUrl'', Type = TypeString, Default = Some (VString ''/haproxy?stats''),
          Required = False, WriteOnly = False\<rparr>),
      (''stats_password'', stats_password_attribute)]"

definition example_layer :: opsworksLayerType where
  "example_layer = \<lparr>TypeName = ''lb'', DefaultLayerName = ''HAProxy'',
                     Attributes = example_attributes, CustomShortName = False\<rparr>"

definition example_state :: ResourceData where
  "example_state =
     \<lparr>rd_id = ''layer-1'',
      rd_schema = [''allocated_memory'' \<mapsto> TypeInt, ''stats_enabled'' \<mapsto> TypeBool,
                   ''stats_url'' \<mapsto> TypeString, ''stats_password'' \<mapsto> TypeString],
      rd_prior = Map.empty,
      rd_vals = [''allocated_memory'' \<mapsto> VInt 512, ''stats_url'' \<mapsto> VString ''/stats'',
                 ''stats_password'' \<mapsto> VString ''secret'']\<rparr>"


text \<open>
  Two attributes of the same type, in either order of visit; a state that holds a value
  for both; a bag that holds another value for both.
\<close>

definition pair_layer ::
  "ValueType \<Rightarrow> bool \<Rightarrow> opsworksLayerType" where
  "pair_layer ty swapped =
     (let first = (''first_setting'',
                     \<lparr>AttrName = ''FirstSetting'', Type = ty, Default = None,
                      Required = False, WriteOnly = False\<rparr>);
          second = (''second_setting'',
                     \<lparr>AttrName = ''SecondSetting'', Type = ty, Default = None,
                      Required = False, WriteOnly = False\<rparr>)
      in \<lparr>TypeName = ''custom'', DefaultLayerName = [],
           Attributes = (if swapped then [second, first] else [first, second]),
           CustomShortName = True\<rparr>)"

definition pair_state :: "ValueType \<Rightarrow> val \<Rightarrow> val \<Rightarrow> ResourceData" where
  "pair_state ty v1 v2 =
     \<lparr>rd_id = ''layer-1'',
      rd_schema = [''first_setting'' \<mapsto> ty, ''second_setting'' \<mapsto> ty],
      rd_prior = Map.empty,
      rd_vals = [''first_setting'' \<mapsto> v1, ''second_setting'' \<mapsto> v2]\<rparr>"

definition pair_bag :: "string \<Rightarrow> string \<Rightarrow> bag" where
  "pair_bag s1 s2 = [''FirstSetting'' \<mapsto> Some s1, ''SecondSetting'' \<mapsto> Some s2]"

text \<open>
  The state for the same two keys in which nothing is set, and the layer type whose two
  string attributes share one remote key.
\<close>

definition unset_state :: "ValueType \<Rightarrow> ResourceData" where
  "unset_state ty =
     \<lparr>rd_id = ''layer-1'',
      rd_schema = [''first_setting'' \<mapsto> ty, ''second_setting'' \<mapsto> ty],
      rd_prior = Map.empty,
      rd_vals = Map.empty\<rparr>"

definition shared_key_layer :: "bool \<Rightarrow> opsworksLayerType" where
  "shared_key_layer swapped =
     (let first = (''first_setting'',
                     \<lparr>AttrName = ''Setting'', Type = TypeString, Default = None,
                      Required = False, WriteOnly = False\<rparr>);
          second = (''second_setting'',
                     \<lparr>AttrName = ''Setting'', Type = TypeString, Default = None,
                      Required = False, WriteOnly = False\<rparr>)
      in \<lparr>TypeName = ''custom'', DefaultLayerName = [],
           Attributes = (if swapped then [second, first] else [first, second]),
           CustomShortName = True\<rparr>)"

subsection \<open>Volume configurations in the state\<close>

text \<open>
  An element of the \<^verbatim>\<open>ebs_volume\<close> set as the SDK hands it over: a map that has
  every field of the element schema, each with a value of the field's type.
\<close>

definition volume_field :: "val \<Rightarrow> string \<Rightarrow> val option" where
  "volume_field element name = (case element of VMap kvs \<Rightarrow> map_of kvs name | _ \<Rightarrow> None)"

definition ebs_volume_ok :: "val \<Rightarrow> bool" where
  "ebs_volume_ok element \<longleftrightarrow>
     (case element of VMap kvs \<Rightarrow> True | _ \<Rightarrow> False) \<and>
     (case volume_field element ''mount_point'' of Some (VString s) \<Rightarrow> True | _ \<Rightarrow> False) \<and>
     (case volume_field element ''number_of_disks'' of Some (VInt i) \<Rightarrow> True | _ \<Rightarrow> False) \<and>
     (case volume_field element ''size'' of Some (VInt i) \<Rightarrow> True | _ \<Rightarrow> False) \<and>
     (case volume_field element ''type'' of Some (VString s) \<Rightarrow> True | _ \<Rightarrow> False) \<and>
     (case volume_field element ''encrypted'' of Some (VBool b) \<Rightarrow> True | _ \<Rightarrow> False) \<and>
     (case volume_field element ''iops'' of Some (VInt i) \<Rightarrow> True | _ \<Rightarrow> False) \<and>
     (case volume_field element ''raid_level'' of Some (VString s) \<Rightarrow> True | _ \<Rightarrow> False)"

definition example_volume :: "int \<Rightarrow> string \<Rightarrow> val" where
  "example_volume iops raid_level =
     VMap [(''iops'', VInt iops), (''mount_point'', VString ''/data''),
           (''number_of_disks'', VInt 2), (''raid_level'', VString raid_level),
           (''size'', VInt 100), (''type'', VString ''standard''),
           (''encrypted'', VBool False)]"

definition volume_state :: "val list \<Rightarrow> ResourceData" where
  "volume_state volumes =
     \<lparr>rd_id = ''layer-1'', rd_schema = [''ebs_volume'' \<mapsto> TypeSet], rd_prior = Map.empty,
      rd_vals = [''ebs_volume'' \<mapsto> VSet volumes]\<rparr>"

subsection \<open>The schemas, and states made for them\<close>

text \<open>
  The types of the schema that \<^verbatim>\<open>SchemaResource\<close> builds: the fixed keys, then
  \<^verbatim>\<open>short_name\<close> and \<^verbatim>\<open>name\<close>, then one key per attribute of the layer type
  (the loop assigns \<^verbatim>\<open>resourceSchema[key]\<close>, replacing a fixed key of the same
  name).  The tag schemas are maps.
\<close>

definition SchemaResource_attribute ::
  "string \<times> opsworksLayerTypeAttribute \<Rightarrow> (string \<rightharpoonup> ValueType) \<Rightarrow> (string \<rightharpoonup> ValueType)" where
  "SchemaResource_attribute entry resourceSchema =
     (case entry of (key, def) \<Rightarrow> resourceSchema(key \<mapsto> Type def))"

definition SchemaResource :: "opsworksLayerType \<Rightarrow> (string \<rightharpoonup> ValueType)" where
  "SchemaResource lt =
     (let resourceSchema =
        [''auto_assign_elastic_ips'' \<mapsto> TypeBool,
         ''auto_assign_public_ips'' \<mapsto> TypeBool,
         ''custom_instance_profile_arn'' \<mapsto> TypeString,
         ''elastic_load_balancer'' \<mapsto> TypeString,
         ''custom_setup_recipes'' \<mapsto> TypeList,
         ''custom_configure_recipes'' \<mapsto> TypeList,
         ''custom_deploy_recipes'' \<mapsto> TypeList,
         ''custom_undeploy_recipes'' \<mapsto> TypeList,
         ''custom_shutdown_recipes'' \<mapsto> TypeList,
         ''custom_security_group_ids'' \<mapsto> TypeSet,
         ''custom_json'' \<mapsto> TypeString,
         ''auto_healing'' \<mapsto> TypeBool,
         ''install_updates_on_boot'' \<mapsto> TypeBool,
         ''instance_shutdown_timeout'' \<mapsto> TypeInt,
         ''drain_elb_on_shutdown'' \<mapsto> TypeBool,
         ''system_packages'' \<mapsto> TypeSet,
         ''stack_id'' \<mapsto> TypeString,
         ''use_ebs_optimized_instances'' \<mapsto> TypeBool,
         ''ebs_volume'' \<mapsto> TypeSet,
         ''arn'' \<mapsto> TypeString,
         ''tags'' \<mapsto> TypeMap,
         ''tags_all'' \<mapsto> TypeMap];
          resourceSchema =
            (if CustomShortName lt then resourceSchema(''short_name'' \<mapsto> TypeString)
             else resourceSchema);
          resourceSchema = resourceSchema(''name'' \<mapsto> TypeString)
      in fold SchemaResource_attribute (Attributes lt) resourceSchema)"

text \<open>
  A state of the example layer in which only the load balancer is set, to \<open>lbn\<close>,
  after having been \<open>lbo\<close>; a connection on which every call succeeds and one on
  which detaching fails.
\<close>

definition update_state :: "string \<Rightarrow> string \<Rightarrow> ResourceData" where
  "update_state lbo lbn =
     \<lparr>rd_id = ''layer-1'',
      rd_schema = SchemaResource example_layer,
      rd_prior = [''elastic_load_balancer'' \<mapsto> VString lbo],
      rd_vals = [''elastic_load_balancer'' \<mapsto> VString lbn]\<rparr>"

definition conn_ok :: OpsWorksConn where
  "conn_ok = \<lparr>DetachElasticLoadBalancer = (\<lambda>name layer. None),
              AttachElasticLoadBalancer = (\<lambda>name layer. None),
              UpdateLayer = (\<lambda>req. None),
              UpdateTags = (\<lambda>arn old new. None)\<rparr>"

definition conn_detach_fails :: OpsWorksConn where
  "conn_detach_fails =
     conn_ok\<lparr>DetachElasticLoadBalancer := (\<lambda>name layer. Some (ApiError ''detach failed''))\<rparr>"


text \<open>
  The types of the schema of the data source \<^verbatim>\<open>DataSourceVPCIpamPool\<close>, a pool as
  the remote side describes it, a connection that answers every query with the given
  pools, and the state of a lookup without identifier and without filters.
\<close>

definition DataSourceVPCIpamPool :: "string \<rightharpoonup> ValueType" where
  "DataSourceVPCIpamPool =
     [''filter'' \<mapsto> TypeSet,
      ''ipam_pool_id'' \<mapsto> TypeString,
      ''arn'' \<mapsto> TypeString,
      ''address_family'' \<mapsto> TypeString,
      ''publicly_advertisable'' \<mapsto> TypeBool,
      ''allocation_default_netmask_length'' \<mapsto> TypeInt,
      ''allocation_max_netmask_length'' \<mapsto> TypeInt,
      ''allocation_min_netmask_length'' \<mapsto> TypeInt,
      ''allocation_resource_tags'' \<mapsto> TypeMap,
      ''auto_import'' \<mapsto> TypeBool,
      ''aws_service'' \<mapsto> TypeString,
      ''description'' \<mapsto> TypeString,
      ''id'' \<mapsto> TypeString,
      ''ipam_scope_id'' \<mapsto> TypeString,
      ''ipam_scope_type'' \<mapsto> TypeString,
      ''locale'' \<mapsto> TypeString,
      ''pool_depth'' \<mapsto> TypeInt,
      ''source_ipam_pool_id'' \<mapsto> TypeString,
      ''state'' \<mapsto> TypeString,
      ''tags'' \<mapsto> TypeMap]"

definition example_pool :: "string \<Rightarrow> string \<Rightarrow> IpamPool" where
  "example_pool pool_id scope_arn =
     \<lparr>IpamPoolId = Some pool_id, PubliclyAdvertisable = None, IpamScopeArn = Some scope_arn,
      AllocationResourceTags = [], AutoImport = Some False,
      IpamPoolArn = Some (''arn:aws:ec2::123456789012:ipam-pool/'' @ pool_id),
      Description = None, IpamScopeType = Some ''private'', Locale = Some ''us-east-1'',
      PoolDepth = Some 1, AwsService = None, SourceIpamPoolId = None,
      State = Some ''create-complete''\<rparr>"

definition pool_conn :: "IpamPool option list \<Rightarrow> EC2Conn" where
  "pool_conn pools =
     \<lparr>DescribeIpamPools = (\<lambda>input. Inr (Some \<lparr>IpamPools = pools\<rparr>)),
      BuildFiltersDataSource = (\<lambda>filters. []),
      AllocationResourceTagsMap = (\<lambda>tags. VMap (map (\<lambda>(k, v). (k, VString v)) tags))\<rparr>"

definition pool_state :: ResourceData where
  "pool_state = \<lparr>rd_id = [], rd_schema = DataSourceVPCIpamPool, rd_prior = Map.empty,
                  rd_vals = Map.empty\<rparr>"

subsection \<open>The entries the read direction passes over\<close>

text \<open>
  \<open>SetAttributeMap\<close> goes on with its loop after an entry that is write-only, that
  the bag lacks or that the bag holds as nil; of these it unsets the ones that are not
  write-only.
\<close>

fun clear_absent ::
  "(string \<times> opsworksLayerTypeAttribute) list \<Rightarrow> ResourceData \<Rightarrow> ResourceData" where
  "clear_absent [] d = d"
| "clear_absent ((key, def) # rest) d =
     (if WriteOnly def then clear_absent rest d else clear_absent rest (Set d key None))"

definition absent_or_write_only :: "bag \<Rightarrow> string \<times> opsworksLayerTypeAttribute \<Rightarrow> bool" where
  "absent_or_write_only attrs entry \<longleftrightarrow>
     WriteOnly (snd entry) \<or> attrs (AttrName (snd entry)) = None \<or>
     attrs (AttrName (snd entry)) = Some None"

text \<open>
  The SDK keeps every stored value at the type its key has in the schema.
\<close>

definition values_typed :: "ResourceData \<Rightarrow> bool" where
  "values_typed d \<longleftrightarrow>
     (\<forall>key ty v. rd_schema d key = Some ty \<longrightarrow> rd_vals d key = Some v \<longrightarrow> has_type ty v)"

text \<open>
  The output attributes that the lookup writes, and the value of an attribute in the
  outcome of a read.
\<close>

definition pool_output_attributes :: "string list" where
  "pool_output_attributes =
     [''publicly_advertisable'', ''allocation_resource_tags'', ''auto_import'', ''arn'',
      ''description'', ''ipam_scope_id'', ''ipam_scope_type'', ''locale'', ''pool_depth'',
      ''aws_service'', ''source_ipam_pool_id'', ''state'']"

definition read_attribute :: "error + ResourceData \<Rightarrow> string \<Rightarrow> error + val option" where
  "read_attribute result key = (case result of Inl e \<Rightarrow> Inl e | Inr d \<Rightarrow> Inr (rd_vals d key))"

section \<open>Decimal conversion\<close>

lemma digit_cases:
  "(k::nat) < 10 \<Longrightarrow> k = 0 \<or> k = 1 \<or> k = 2 \<or> k = 3 \<or> k = 4 \<or> k = 5 \<or> k = 6 \<or> k = 7 \<or> k = 8 \<or> k = 9"
  by arith

lemma byte_digit_digit_byte: "k < 10 \<Longrightarrow> byte_digit (digit_byte k) = Some k"
  using digit_cases [of k] by (auto simp: byte_digit_def digit_byte_def)

lemma digit_byte_not_sign: "k < 10 \<Longrightarrow> digit_byte k \<noteq> CHR ''-'' \<and> digit_byte k \<noteq> CHR ''+''"
  using digit_cases [of k] by (auto simp: digit_byte_def)

lemma parse_digits_snoc:
  "parse_digits (cs @ [c]) n =
     (case parse_digits cs n of
        None \<Rightarrow> None
      | Some m \<Rightarrow> (case byte_digit c of None \<Rightarrow> None | Some k \<Rightarrow> Some (m * 10 + k)))"
  by (induction cs arbitrary: n) (auto split: option.splits)

lemma parse_digits_format_nat: "parse_digits (format_nat n) 0 = Some n"
proof (induction n rule: format_nat.induct)
  case (1 n)
  show ?case
  proof (cases "n < 10")
    case True
    then show ?thesis
      by (simp add: format_nat.simps [of n] byte_digit_digit_byte)
  next
    case False
    with 1 have "parse_digits (format_nat (n div 10)) 0 = Some (n div 10)" by simp
    with False show ?thesis
      by (simp add: format_nat.simps [of n] parse_digits_snoc byte_digit_digit_byte)
  qed
qed

lemma format_nat_hd:
  "\<exists>c cs. format_nat n = c # cs \<and> c \<noteq> CHR ''-'' \<and> c \<noteq> CHR ''+''"
proof (induction n rule: format_nat.induct)
  case (1 n)
  show ?case
  proof (cases "n < 10")
    case True
    then show ?thesis
      using digit_byte_not_sign [of n] by (simp add: format_nat.simps [of n])
  next
    case False
    with 1 obtain c cs where "format_nat (n div 10) = c # cs" "c \<noteq> CHR ''-''" "c \<noteq> CHR ''+''"
      by auto
    with False show ?thesis
      by (simp add: format_nat.simps [of n])
  qed
qed

lemma Atoi_unsigned:
  assumes "c \<noteq> CHR ''-''" "c \<noteq> CHR ''+''" "parse_digits (c # cs) 0 = Some n" "go_int (int n)"
  shows "Atoi (c # cs) = Some (int n)"
  unfolding Atoi_def using assms by (simp del: parse_digits.simps)

lemma Atoi_negative:
  assumes "ds \<noteq> []" "parse_digits ds 0 = Some n" "go_int (- int n)"
  shows "Atoi (CHR ''-'' # ds) = Some (- int n)"
  unfolding Atoi_def using assms by (simp del: parse_digits.simps)

lemma Atoi_Itoa: "go_int i \<Longrightarrow> Atoi (Itoa i) = Some i"
proof -
  assume r: "go_int i"
  show ?thesis
  proof (cases "i < 0")
    case True
    define n where "n = nat (- i)"
    have i: "i = - int n" using True by (simp add: n_def)
    obtain c cs where f: "format_nat n = c # cs"
      using format_nat_hd [of n] by blast
    have "Atoi (CHR ''-'' # format_nat n) = Some (- int n)"
    proof (rule Atoi_negative)
      show "format_nat n \<noteq> []" using f by simp
      show "parse_digits (format_nat n) 0 = Some n" by (rule parse_digits_format_nat)
      show "go_int (- int n)" using r i by simp
    qed
    moreover have "Itoa i = CHR ''-'' # format_nat n"
      using True by (simp add: Itoa_def n_def)
    ultimately show ?thesis using i by simp
  next
    case False
    define n where "n = nat i"
    have i: "i = int n" using False by (simp add: n_def)
    obtain c cs where f: "format_nat n = c # cs" "c \<noteq> CHR ''-''" "c \<noteq> CHR ''+''"
      using format_nat_hd [of n] by blast
    have "Atoi (c # cs) = Some (int n)"
    proof (rule Atoi_unsigned)
      show "c \<noteq> CHR ''-''" "c \<noteq> CHR ''+''" using f by simp_all
      show "parse_digits (c # cs) 0 = Some n"
        using parse_digits_format_nat [of n] f by simp
      show "go_int (int n)" using r i by simp
    qed
    moreover have "Itoa i = c # cs"
      using False f by (simp add: Itoa_def n_def)
    ultimately show ?thesis using i by simp
  qed
qed

section \<open>The write direction\<close>

lemma AttributeMap_range_Cons_unknown:
  "Get_unknown_type d key \<Longrightarrow>
   AttributeMap_range ((key, def) # es) d attrs = Inl UnknownTypePanic"
  by simp

lemma AttributeMap_range_step:
  assumes "AttributeMap_range ((key, def) # es) d attrs = Inr bag"
  shows "\<exists>v. Get d key = Some v \<and> supported_type (Type def) \<and>
           (Type def = TypeString \<longrightarrow> (\<exists>s. v = VString s)) \<and>
           (Type def = TypeInt \<longrightarrow> (\<exists>i. v = VInt i)) \<and>
           (Type def = TypeBool \<longrightarrow> (\<exists>b. v = VBool b)) \<and>
           AttributeMap_range es d (attrs(AttrName def \<mapsto> Some (spec_encode v))) = Inr bag"
proof -
  from assms have known: "\<not> Get_unknown_type d key"
    by (auto split: if_splits)
  show ?thesis
  proof (cases "Get d key")
    case None
    with assms known show ?thesis by (cases "Type def") (simp_all add: Let_def)
  next
    case (Some v)
    with assms known show ?thesis
      by (cases "Type def"; cases v)
         (simp_all add: Let_def supported_type_def opsworksTrueString_def
            opsworksFalseString_def split: if_splits)
  qed
qed

lemma AttributeMap_range_dom:
  "AttributeMap_range es d attrs = Inr bag \<Longrightarrow> dom bag = dom attrs \<union> set (attr_names es)"
proof (induction es arbitrary: attrs)
  case Nil
  then show ?case by (simp add: attr_names_def)
next
  case (Cons e es)
  obtain key def where e: "e = (key, def)" by (cases e)
  from Cons.prems e AttributeMap_range_step [of key "def" es d attrs bag] obtain attrs' where
    step: "AttributeMap_range es d attrs' = Inr bag" and
    d: "dom attrs' = insert (AttrName def) (dom attrs)"
    by auto
  from Cons.IH [OF step] d e show ?case by (auto simp: attr_names_def)
qed

lemma AttributeMap_range_other:
  "AttributeMap_range es d attrs = Inr bag \<Longrightarrow> n \<notin> set (attr_names es) \<Longrightarrow> bag n = attrs n"
proof (induction es arbitrary: attrs)
  case Nil
  then show ?case by simp
next
  case (Cons e es)
  obtain key def where e: "e = (key, def)" by (cases e)
  from Cons.prems(2) e have n: "n \<noteq> AttrName def" "n \<notin> set (attr_names es)"
    by (auto simp: attr_names_def)
  from Cons.prems(1) e AttributeMap_range_step [of key "def" es d attrs bag] n(1) obtain attrs' where
    step: "AttributeMap_range es d attrs' = Inr bag" and
    d: "attrs' n = attrs n"
    by auto
  from Cons.IH [OF step n(2)] d show ?case by simp
qed

lemma AttributeMap_range_entry:
  "AttributeMap_range es d attrs = Inr bag \<Longrightarrow> distinct (attr_names es) \<Longrightarrow>
   (key, def) \<in> set es \<Longrightarrow>
   \<exists>v. Get d key = Some v \<and> supported_type (Type def) \<and>
       (Type def = TypeString \<longrightarrow> (\<exists>s. v = VString s)) \<and>
       (Type def = TypeInt \<longrightarrow> (\<exists>i. v = VInt i)) \<and>
       (Type def = TypeBool \<longrightarrow> (\<exists>b. v = VBool b)) \<and>
       bag (AttrName def) = Some (Some (spec_encode v))"
proof (induction es arbitrary: attrs)
  case Nil
  then show ?case by simp
next
  case (Cons e es)
  obtain key' def' where e: "e = (key', def')" by (cases e)
  from Cons.prems(2) e have dist: "AttrName def' \<notin> set (attr_names es)" "distinct (attr_names es)"
    by (auto simp: attr_names_def)
  show ?case
  proof (cases "(key, def) = e")
    case True
    with e have same: "key' = key" "def' = def" by simp_all
    from Cons.prems(1) e same AttributeMap_range_step [of key "def" es d attrs bag]
    obtain attrs' v where
      step: "AttributeMap_range es d attrs' = Inr bag" and
      g: "Get d key = Some v" and
      s: "supported_type (Type def)" and
      t: "Type def = TypeString \<longrightarrow> (\<exists>s. v = VString s)"
         "Type def = TypeInt \<longrightarrow> (\<exists>i. v = VInt i)"
         "Type def = TypeBool \<longrightarrow> (\<exists>b. v = VBool b)" and
      a: "attrs' (AttrName def) = Some (Some (spec_encode v))"
      by fastforce
    from AttributeMap_range_other [OF step] dist(1) same a
    have "bag (AttrName def) = Some (Some (spec_encode v))" by simp
    with g s t show ?thesis by blast
  next
    case False
    with Cons.prems(3) have mem: "(key, def) \<in> set es" by auto
    from Cons.prems(1) e AttributeMap_range_step [of key' def' es d attrs bag] obtain attrs' where
      step: "AttributeMap_range es d attrs' = Inr bag"
      by auto
    from Cons.IH [OF step dist(2) mem] show ?thesis .
  qed
qed

text \<open>
  One round of the loop on a state that matches the attribute: an attribute of a
  supported type adds its entry and the loop goes on, an attribute of any other type
  ends the loop with the failure of that type.
\<close>

lemma AttributeMap_range_Cons_supported:
  assumes "value_matches d (key, def)" "supported_type (Type def)"
  shows "\<exists>v. Get d key = Some v \<and>
           AttributeMap_range ((key, def) # es) d attrs
             = AttributeMap_range es d (attrs(AttrName def \<mapsto> Some (spec_encode v)))"
proof -
  from assms obtain v where
    g: "Get d key = Some v" "has_type (Type def) v" and
    known: "\<not> Get_unknown_type d key"
    by (auto simp: value_matches_def Get_unknown_type_def supported_type_def
             split: option.splits)
  from g known assms(2) show ?thesis
    by (cases v; cases "Type def")
       (auto simp: supported_type_def Let_def opsworksTrueString_def opsworksFalseString_def)
qed

lemma AttributeMap_range_Cons_unsupported:
  assumes "value_matches d (key, def)" "\<not> supported_type (Type def)"
  shows "AttributeMap_range ((key, def) # es) d attrs = Inl (unsupported_failure (Type def))"
proof (cases "Type def = TypeInvalid")
  case True
  with assms(1) have "Get_unknown_type d key"
    by (simp add: value_matches_def Get_unknown_type_def)
  with True show ?thesis by (simp add: unsupported_failure_def)
next
  case False
  with assms(1) have "\<not> Get_unknown_type d key"
    by (simp add: value_matches_def Get_unknown_type_def)
  with False assms(2) show ?thesis
    by (cases "Type def") (simp_all add: unsupported_failure_def supported_type_def Let_def)
qed

lemma AttributeMap_range_first_unsupported:
  assumes "list_all (value_matches d) (pre @ e # rest)"
    and "\<forall>x \<in> set pre. supported_type (Type (snd x))"
    and "\<not> supported_type (Type (snd e))"
  shows "AttributeMap_range (pre @ e # rest) d attrs = Inl (unsupported_failure (Type (snd e)))"
  using assms
proof (induction pre arbitrary: attrs)
  case Nil
  then show ?case
    using AttributeMap_range_Cons_unsupported [of d "fst e" "snd e" rest attrs] by simp
next
  case (Cons x pre)
  from Cons.prems have "value_matches d (fst x, snd x)" "supported_type (Type (snd x))"
    by simp_all
  from AttributeMap_range_Cons_supported [OF this, of "pre @ e # rest" attrs] obtain attrs' where
    "AttributeMap_range ((x # pre) @ e # rest) d attrs
       = AttributeMap_range (pre @ e # rest) d attrs'"
    by auto
  moreover from Cons have
    "AttributeMap_range (pre @ e # rest) d attrs' = Inl (unsupported_failure (Type (snd e)))"
    by simp
  ultimately show ?case by simp
qed

lemma AttributeMap_range_total:
  "list_all (value_matches d) es \<Longrightarrow> \<forall>e \<in> set es. supported_type (Type (snd e)) \<Longrightarrow>
   \<exists>bag. AttributeMap_range es d attrs = Inr bag"
proof (induction es arbitrary: attrs)
  case Nil
  then show ?case by simp
next
  case (Cons e es)
  from Cons.prems have "value_matches d (fst e, snd e)" "supported_type (Type (snd e))"
    by simp_all
  from AttributeMap_range_Cons_supported [OF this, of es attrs] obtain attrs' where
    "AttributeMap_range (e # es) d attrs = AttributeMap_range es d attrs'"
    by auto
  moreover from Cons have "\<exists>bag. AttributeMap_range es d attrs' = Inr bag" by simp
  ultimately show ?case by simp
qed

lemma AttributeMap_range_error:
  "list_all (value_matches d) es \<Longrightarrow> AttributeMap_range es d attrs = Inl err \<Longrightarrow>
   \<exists>e \<in> set es. \<not> supported_type (Type (snd e)) \<and> err = unsupported_failure (Type (snd e))"
proof (induction es arbitrary: attrs)
  case Nil
  then show ?case by simp
next
  case (Cons e es)
  from Cons.prems(1) have m: "value_matches d (fst e, snd e)" and
    rest: "list_all (value_matches d) es"
    by simp_all
  show ?case
  proof (cases "supported_type (Type (snd e))")
    case False
    from AttributeMap_range_Cons_unsupported [OF m False, of es attrs] Cons.prems(2)
    have "err = unsupported_failure (Type (snd e))" by simp
    with False show ?thesis by simp
  next
    case True
    from AttributeMap_range_Cons_supported [OF m True, of es attrs] Cons.prems(2)
    obtain attrs' where "AttributeMap_range es d attrs' = Inl err" by auto
    from Cons.IH [OF rest this] show ?thesis by auto
  qed
qed

lemma AttributeMap_range_supported:
  "AttributeMap_range es d attrs = Inr bag \<Longrightarrow> e \<in> set es \<Longrightarrow> supported_type (Type (snd e))"
proof (induction es arbitrary: attrs)
  case Nil
  then show ?case by simp
next
  case (Cons e' es)
  obtain key def where e': "e' = (key, def)" by (cases e')
  from Cons.prems(1) e' AttributeMap_range_step [of key "def" es d attrs bag] obtain attrs' where
    step: "AttributeMap_range es d attrs' = Inr bag" and s: "supported_type (Type def)"
    by auto
  from Cons.prems(2) Cons.IH [OF step] s e' show ?case by auto
qed

text \<open>
  A state made for the schema of a layer type matches the declared types of that layer
  type: the schema gives every attribute key the attribute's type, a stored value has
  the type of its key, and an unset key reads as the zero value of that type.
\<close>

lemma SchemaResource_attribute_pair:
  "SchemaResource_attribute (key, def) resourceSchema = resourceSchema(key \<mapsto> Type def)"
  by (simp add: SchemaResource_attribute_def)

lemma fold_schema_other:
  "key \<notin> fst ` set es \<Longrightarrow>
   fold SchemaResource_attribute es m key = m key"
  by (induction es arbitrary: m) (auto simp: SchemaResource_attribute_pair)

lemma fold_schema_entry:
  "distinct (map fst es) \<Longrightarrow> (key, def) \<in> set es \<Longrightarrow>
   fold SchemaResource_attribute es m key = Some (Type def)"
proof (induction es arbitrary: m)
  case Nil
  then show ?case by simp
next
  case (Cons e es)
  show ?case
  proof (cases "e = (key, def)")
    case True
    with Cons.prems(1) have "key \<notin> fst ` set es" by auto
    with True fold_schema_other [of key es "m(key \<mapsto> Type def)"] show ?thesis
      by (simp add: SchemaResource_attribute_pair)
  next
    case False
    with Cons show ?thesis by (cases e) (auto simp: SchemaResource_attribute_pair)
  qed
qed

lemma SchemaResource_entry:
  "distinct (map fst (Attributes lt)) \<Longrightarrow> (key, def) \<in> set (Attributes lt) \<Longrightarrow>
   SchemaResource lt key = Some (Type def)"
  by (simp add: SchemaResource_def Let_def fold_schema_entry)

lemma zero_value_has_type:
  "supported_type ty \<Longrightarrow> \<exists>v. zero_value ty = Some v \<and> has_type ty v"
  by (auto simp: supported_type_def go_int_def)

lemma state_matches_SchemaResource:
  assumes "distinct (map fst (Attributes lt))"
    and "rd_schema d = SchemaResource lt"
    and "values_typed d"
  shows "state_matches lt d"
proof -
  have "value_matches d e" if mem: "e \<in> set (Attributes lt)" for e
  proof -
    obtain key def where e: "e = (key, def)" by (cases e)
    with mem assms(1,2) have s: "rd_schema d key = Some (Type def)"
      by (simp add: SchemaResource_entry)
    show ?thesis
    proof (cases "rd_vals d key")
      case None
      with s e zero_value_has_type [of "Type def"] show ?thesis
        by (auto simp: value_matches_def Get_def)
    next
      case (Some v)
      with s assms(3) have "has_type (Type def) v" by (auto simp: values_typed_def)
      with s e Some show ?thesis by (simp add: value_matches_def Get_def)
    qed
  qed
  then show ?thesis by (simp add: state_matches_def list_all_iff)
qed

lemma example_state_matches: "state_matches example_layer example_state"
  by (simp add: state_matches_def example_layer_def example_attributes_def example_state_def
        stats_password_attribute_def value_matches_def supported_type_def Get_def go_int_def)

lemma example_names_distinct: "distinct (attr_names (Attributes example_layer))"
  by (simp add: example_layer_def example_attributes_def stats_password_attribute_def
        attr_names_def)

lemma unset_state_matches: "state_matches (pair_layer ty swapped) (unset_state ty)"
  by (cases ty)
     (simp_all add: state_matches_def pair_layer_def unset_state_def value_matches_def
        supported_type_def Get_def go_int_def Let_def)

text \<open>
  Claim C4, as amended.  Let the state match the declared types of the layer type.
  \<open>AttributeMap\<close> fails exactly when some attribute has a type other than string,
  integer or boolean.  It then fails at the first such attribute it visits: with the
  unsupported-type error if that attribute is a float, a list, a map or a set, and with
  the panic of \<^verbatim>\<open>d.Get\<close> if it is of the invalid type.  When it does not fail, the
  keys of the bag are exactly the remote keys of the attributes; and when these remote
  keys are pairwise distinct, the bag has one entry per attribute and the entry of an
  attribute is the text of its value: \<open>true\<close> or \<open>false\<close> for a boolean, the decimal
  numeral for an integer, the string itself for a string.
\<close>

theorem AttributeMap_bag:
  assumes typed: "state_matches lt d"
  shows "((\<exists>err. AttributeMap lt d = Inl err) \<longleftrightarrow>
            (\<exists>e \<in> set (Attributes lt). \<not> supported_type (Type (snd e)))) \<and>
         (\<forall>pre e rest. Attributes lt = pre @ e # rest \<and>
              (\<forall>x \<in> set pre. supported_type (Type (snd x))) \<and>
              \<not> supported_type (Type (snd e)) \<longrightarrow>
            AttributeMap lt d = Inl (unsupported_failure (Type (snd e)))) \<and>
         (\<forall>bag. AttributeMap lt d = Inr bag \<longrightarrow>
            dom bag = set (attr_names (Attributes lt)) \<and>
            (distinct (attr_names (Attributes lt)) \<longrightarrow>
               card (dom bag) = length (Attributes lt) \<and>
               (\<forall>e \<in> set (Attributes lt).
                  \<exists>v. Get d (fst e) = Some v \<and> has_type (Type (snd e)) v \<and>
                      bag (AttrName (snd e)) = Some (Some (spec_encode v)))))"
proof (intro conjI allI impI)
  from typed have all: "list_all (value_matches d) (Attributes lt)"
    by (simp add: state_matches_def)
  show "(\<exists>err. AttributeMap lt d = Inl err) \<longleftrightarrow>
          (\<exists>e \<in> set (Attributes lt). \<not> supported_type (Type (snd e)))"
  proof
    assume "\<exists>err. AttributeMap lt d = Inl err"
    then obtain err where "AttributeMap_range (Attributes lt) d Map.empty = Inl err"
      by (auto simp: AttributeMap_def)
    from AttributeMap_range_error [OF all this]
    show "\<exists>e \<in> set (Attributes lt). \<not> supported_type (Type (snd e))"
      by auto
  next
    assume bad: "\<exists>e \<in> set (Attributes lt). \<not> supported_type (Type (snd e))"
    show "\<exists>err. AttributeMap lt d = Inl err"
    proof (cases "AttributeMap lt d")
      case (Inl err)
      then show ?thesis by blast
    next
      case (Inr bag)
      then have "AttributeMap_range (Attributes lt) d Map.empty = Inr bag"
        by (simp add: AttributeMap_def)
      from AttributeMap_range_supported [OF this] bad show ?thesis by blast
    qed
  qed
  fix pre e rest
  assume first: "Attributes lt = pre @ e # rest \<and>
              (\<forall>x \<in> set pre. supported_type (Type (snd x))) \<and>
              \<not> supported_type (Type (snd e))"
  with all have "list_all (value_matches d) (pre @ e # rest)" by simp
  from AttributeMap_range_first_unsupported [OF this, of Map.empty] first
  show "AttributeMap lt d = Inl (unsupported_failure (Type (snd e)))"
    by (simp add: AttributeMap_def)
next
  fix bag assume "AttributeMap lt d = Inr bag"
  then have r: "AttributeMap_range (Attributes lt) d Map.empty = Inr bag"
    by (simp add: AttributeMap_def)
  from AttributeMap_range_dom [OF r]
  show dom: "dom bag = set (attr_names (Attributes lt))" by simp
  assume names: "distinct (attr_names (Attributes lt))"
  then have "card (set (attr_names (Attributes lt))) = length (attr_names (Attributes lt))"
    by (rule distinct_card)
  with dom show "card (dom bag) = length (Attributes lt)"
    by (simp add: attr_names_def)
  show "\<forall>e \<in> set (Attributes lt).
          \<exists>v. Get d (fst e) = Some v \<and> has_type (Type (snd e)) v \<and>
              bag (AttrName (snd e)) = Some (Some (spec_encode v))"
  proof
    fix e assume mem: "e \<in> set (Attributes lt)"
    then have "(fst e, snd e) \<in> set (Attributes lt)" by simp
    from AttributeMap_range_entry [OF r names this] obtain v where
      v: "Get d (fst e) = Some v" "supported_type (Type (snd e))"
         "bag (AttrName (snd e)) = Some (Some (spec_encode v))"
      by blast
    from typed mem have "value_matches d e"
      by (simp add: state_matches_def list_all_iff)
    with v(1,2) have "has_type (Type (snd e)) v"
      by (cases e) (simp add: value_matches_def)
    with v show "\<exists>v. Get d (fst e) = Some v \<and> has_type (Type (snd e)) v \<and>
              bag (AttrName (snd e)) = Some (Some (spec_encode v))" by blast
  qed
qed

theorem AttributeMap_bag_witness:
  "state_matches example_layer example_state \<and>
   distinct (attr_names (Attributes example_layer)) \<and>
   (\<exists>bag. AttributeMap example_layer example_state = Inr bag \<and>
          card (dom bag) = 4 \<and>
          bag ''MemcachedMemory'' = Some (Some ''512'') \<and>
          bag ''EnableHaproxyStats'' = Some (Some ''false'') \<and>
          bag ''HaproxyStatsUrl'' = Some (Some ''/stats'')) \<and>
   state_matches (pair_layer TypeList False) (unset_state TypeList) \<and>
   AttributeMap (pair_layer TypeList False) (unset_state TypeList)
     = Inl (UnsupportedAttributeType TypeList)"
proof -
  note spec = AttributeMap_bag [OF example_state_matches]
  have all: "\<forall>e \<in> set (Attributes example_layer). supported_type (Type (snd e))"
    by (simp add: example_layer_def example_attributes_def stats_password_attribute_def
          supported_type_def)
  with spec obtain bag where bag: "AttributeMap example_layer example_state = Inr bag"
    by (cases "AttributeMap example_layer example_state") auto
  with spec example_names_distinct
  have card: "card (dom bag) = length (Attributes example_layer)"
    and entries: "\<forall>e \<in> set (Attributes example_layer).
               \<exists>v. Get example_state (fst e) = Some v \<and> has_type (Type (snd e)) v \<and>
                   bag (AttrName (snd e)) = Some (Some (spec_encode v))"
    by blast+
  from entries have "bag ''MemcachedMemory'' = Some (Some ''512'')"
    "bag ''EnableHaproxyStats'' = Some (Some ''false'')"
    "bag ''HaproxyStatsUrl'' = Some (Some ''/stats'')"
    by (simp_all add: example_layer_def example_attributes_def example_state_def Get_def
          Itoa_def format_nat.simps digit_byte_def)
  with card bag have good:
    "\<exists>bag. AttributeMap example_layer example_state = Inr bag \<and>
          card (dom bag) = 4 \<and>
          bag ''MemcachedMemory'' = Some (Some ''512'') \<and>
          bag ''EnableHaproxyStats'' = Some (Some ''false'') \<and>
          bag ''HaproxyStatsUrl'' = Some (Some ''/stats'')"
    by (simp add: example_layer_def example_attributes_def)
  note list = AttributeMap_bag [OF unset_state_matches [of TypeList False]]
  obtain e rest where
    split: "Attributes (pair_layer TypeList False) = [] @ e # rest" and
    ty: "Type (snd e) = TypeList"
    by (simp add: pair_layer_def Let_def)
  have "AttributeMap (pair_layer TypeList False) (unset_state TypeList)
                    = Inl (unsupported_failure (Type (snd e)))"
  proof (rule list [THEN conjunct2, THEN conjunct1, rule_format, of "[]" e rest])
    from split ty
    show "Attributes (pair_layer TypeList False) = [] @ e # rest \<and>
          (\<forall>x \<in> set []. supported_type (Type (snd x))) \<and>
          \<not> supported_type (Type (snd e))"
      by (simp add: supported_type_def)
  qed
  with ty have bad: "AttributeMap (pair_layer TypeList False) (unset_state TypeList)
                    = Inl (UnsupportedAttributeType TypeList)"
    by (simp add: unsupported_failure_def)
  from good bad example_state_matches example_names_distinct
    unset_state_matches [of TypeList False]
  show ?thesis by blast
qed

text \<open>
  Claim C4 as stated fails in two ways.  An attribute of the invalid type is of a type
  other than string, integer and boolean, yet \<open>AttributeMap\<close> returns no error for
  it: it panics inside \<^verbatim>\<open>d.Get\<close>.  And two attributes that share a remote key give
  a bag with one entry for the two of them, that of the attribute visited last.
\<close>

theorem AttributeMap_invalid_type_counterexample:
  "state_matches (pair_layer TypeInvalid False) (unset_state TypeInvalid) \<and>
   \<not> supported_type TypeInvalid \<and>
   AttributeMap (pair_layer TypeInvalid False) (unset_state TypeInvalid) = Inl UnknownTypePanic \<and>
   AttributeMap (pair_layer TypeInvalid True) (unset_state TypeInvalid) = Inl UnknownTypePanic \<and>
   is_panic UnknownTypePanic \<and>
   state_matches (shared_key_layer False)
     (pair_state TypeString (VString ''one'') (VString ''two'')) \<and>
   length (Attributes (shared_key_layer False)) = 2 \<and>
   AttributeMap (shared_key_layer False)
     (pair_state TypeString (VString ''one'') (VString ''two''))
     = Inr [''Setting'' \<mapsto> Some ''two''] \<and>
   AttributeMap (shared_key_layer True)
     (pair_state TypeString (VString ''one'') (VString ''two''))
     = Inr [''Setting'' \<mapsto> Some ''one'']"
  by (simp add: state_matches_def value_matches_def supported_type_def AttributeMap_def
        pair_layer_def shared_key_layer_def unset_state_def pair_state_def Get_def
        Get_unknown_type_def is_panic_def Let_def)

section \<open>The read direction\<close>

lemma Get_Set_same:
  "Get d key = Some v \<Longrightarrow> Get (Set d key (Some v)) k = Get d k"
  by (auto simp: Get_def Set_def split: option.splits)

lemma decode_int: "go_int i \<Longrightarrow> Atoi (spec_encode (VInt i)) = Some i"
  by (simp add: Atoi_Itoa)

lemma decode_bool:
  "(if spec_encode (VBool b) = opsworksFalseString then False else True) = b"
  by (simp add: opsworksFalseString_def)

lemma SetAttributeMap_range_roundtrip:
  assumes "\<forall>e \<in> set es. \<not> WriteOnly (snd e) \<longrightarrow>
             (\<exists>v. Get d (fst e) = Some v \<and> has_type (Type (snd e)) v \<and>
                  supported_type (Type (snd e)) \<and>
                  attrs (AttrName (snd e)) = Some (Some (spec_encode v)))"
  shows "\<exists>d'. SetAttributeMap_range es d attrs = (d', None) \<and> (\<forall>k. Get d' k = Get d k)"
  using assms
proof (induction es)
  case Nil
  then show ?case by simp
next
  case (Cons e es)
  obtain key def where e: "e = (key, def)" by (cases e)
  show ?case
  proof (cases "WriteOnly def")
    case True
    with Cons e show ?thesis by simp
  next
    case False
    with Cons.prems e obtain v where
      g: "Get d key = Some v" and t: "has_type (Type def) v" and
      s: "supported_type (Type def)" and
      a: "attrs (AttrName def) = Some (Some (spec_encode v))"
      by auto
    show ?thesis
    proof (cases "Type def")
      case TypeString
      with t obtain s where "v = VString s" by (cases v) simp_all
      with False e g a TypeString Get_Set_same [OF g] show ?thesis by simp
    next
      case TypeInt
      with t obtain i where v: "v = VInt i" "go_int i" by (cases v) simp_all
      with False e a TypeInt decode_int [of i] Get_Set_same [OF g] show ?thesis by simp
    next
      case TypeBool
      with t obtain b where v: "v = VBool b" by (cases v) simp_all
      have "(if spec_encode (VBool b) = opsworksFalseString then False else True) = b"
        by (rule decode_bool)
      with v False e a TypeBool Get_Set_same [OF g] show ?thesis
        by (simp add: Let_def del: spec_encode.simps)
    qed (use s in \<open>simp_all add: supported_type_def\<close>)
  qed
qed

lemma SetAttributeMap_range_frame:
  "SetAttributeMap_range es d attrs = (d', err) \<Longrightarrow>
   rd_id d' = rd_id d \<and> rd_schema d' = rd_schema d \<and> rd_prior d' = rd_prior d \<and>
   (\<forall>k. (\<forall>e \<in> set es. fst e = k \<longrightarrow> WriteOnly (snd e)) \<longrightarrow> rd_vals d' k = rd_vals d k)"
proof (induction es arbitrary: d)
  case Nil
  then show ?case by simp
next
  case (Cons e es)
  obtain key def where e: "e = (key, def)" by (cases e)
  show ?case
  proof (cases "WriteOnly def")
    case True
    with Cons.prems e have "SetAttributeMap_range es d attrs = (d', err)" by simp
    from Cons.IH [OF this] show ?thesis by simp
  next
    case False
    show ?thesis
    proof (cases "\<exists>strValue. attrs (AttrName def) = Some (Some strValue)")
      case True
      then obtain strValue where "attrs (AttrName def) = Some (Some strValue)" by blast
      with Cons.prems e False show ?thesis
        by (cases "Type def") (auto simp: Set_def Let_def split: option.splits)
    next
      case absent: False
      with Cons.prems e False
      have "SetAttributeMap_range es (Set d key None) attrs = (d', err)"
        by (auto split: option.splits)
      from Cons.IH [OF this] e False show ?thesis by (auto simp: Set_def)
    qed
  qed
qed

text \<open>
  What the read direction does do.  It passes over a prefix of entries none of which is
  both readable and present in the bag; the first entry that is both is decoded as the
  specification says (an unparseable integer clears the field, a boolean is false
  exactly for the token \<open>false\<close>), and with that the function returns.  An error is
  returned only for an unsupported type, never for an unparseable value.
\<close>

lemma SetAttributeMap_range_skip:
  "list_all (absent_or_write_only attrs) pre \<Longrightarrow>
   SetAttributeMap_range (pre @ rest) d attrs
     = SetAttributeMap_range rest (clear_absent pre d) attrs"
proof (induction pre arbitrary: d)
  case Nil
  then show ?case by simp
next
  case (Cons e pre)
  obtain key def where e: "e = (key, def)" by (cases e)
  with Cons show ?case
    by (auto simp: absent_or_write_only_def)
qed

lemma SetAttributeMap_range_reached_integer:
  assumes "list_all (absent_or_write_only attrs) pre"
    and "\<not> WriteOnly def" "Type def = TypeInt"
    and "attrs (AttrName def) = Some (Some strValue)" "Atoi strValue = None"
  shows "SetAttributeMap_range (pre @ (key, def) # rest) d attrs
           = (Set (clear_absent pre d) key None, None)"
  using assms by (simp add: SetAttributeMap_range_skip)

lemma SetAttributeMap_range_reached_boolean:
  assumes "list_all (absent_or_write_only attrs) pre"
    and "\<not> WriteOnly def" "Type def = TypeBool"
    and "attrs (AttrName def) = Some (Some strValue)"
  shows "SetAttributeMap_range (pre @ (key, def) # rest) d attrs
           = (Set (clear_absent pre d) key (Some (VBool (strValue \<noteq> ''false''))), None)"
  using assms by (simp add: SetAttributeMap_range_skip opsworksFalseString_def)

lemma SetAttributeMap_range_error:
  "SetAttributeMap_range es d attrs = (d', Some err) \<Longrightarrow>
   \<exists>e \<in> set es. \<not> supported_type (Type (snd e)) \<and> err = UnsupportedAttributeType (Type (snd e))"
proof (induction es arbitrary: d)
  case Nil
  then show ?case by simp
next
  case (Cons e es)
  obtain key def where e: "e = (key, def)" by (cases e)
  show ?case
  proof (cases "absent_or_write_only attrs e")
    case True
    with Cons.prems e obtain d0 where "SetAttributeMap_range es d0 attrs = (d', Some err)"
      by (auto simp: absent_or_write_only_def split: if_splits)
    from Cons.IH [OF this] show ?thesis by auto
  next
    case False
    with e obtain strValue where "\<not> WriteOnly def" "attrs (AttrName def) = Some (Some strValue)"
      by (auto simp: absent_or_write_only_def)
    with Cons.prems e have
      "\<not> supported_type (Type def) \<and> err = UnsupportedAttributeType (Type def)"
      by (cases "Type def") (auto simp: supported_type_def Let_def split: option.splits)
    with e show ?thesis by simp
  qed
qed

text \<open>
  Claim C1.  The claim asks \<open>SetAttributeMap\<close> to set every attribute that is not
  write-only on each call.  The function returns after the first attribute it finds in
  the bag, so it does not: with two string attributes that the state holds as
  \<open>old-1\<close> and \<open>old-2\<close> and that the bag holds as \<open>new-1\<close> and \<open>new-2\<close>, the
  attribute visited second keeps its old value, in whichever order the two are visited.
\<close>

theorem SetAttributeMap_stale_string:
  "rd_vals (fst (SetAttributeMap (pair_layer TypeString False)
                   (pair_state TypeString (VString ''old-1'') (VString ''old-2''))
                   (pair_bag ''new-1'' ''new-2''))) ''second_setting''
     = Some (VString ''old-2'') \<and>
   rd_vals (fst (SetAttributeMap (pair_layer TypeString True)
                   (pair_state TypeString (VString ''old-1'') (VString ''old-2''))
                   (pair_bag ''new-1'' ''new-2''))) ''first_setting''
     = Some (VString ''old-1'')"
  by (simp add: SetAttributeMap_def pair_layer_def pair_state_def pair_bag_def Set_def)

text \<open>
  Claim C7.  An integer attribute whose bag entry is not a numeral is to be cleared.
  With two integer attributes, both with an unparseable entry in the bag, the one
  visited first is cleared and the function returns (without error); the other one
  keeps the integer it had, in whichever order the two are visited.
\<close>

theorem SetAttributeMap_stale_integer:
  "SetAttributeMap (pair_layer TypeInt False)
     (pair_state TypeInt (VInt 512) (VInt 11211)) (pair_bag ''garbage'' ''n/a'')
     = (Set (pair_state TypeInt (VInt 512) (VInt 11211)) ''first_setting'' None, None) \<and>
   rd_vals (fst (SetAttributeMap (pair_layer TypeInt False)
                   (pair_state TypeInt (VInt 512) (VInt 11211))
                   (pair_bag ''garbage'' ''n/a''))) ''second_setting''
     = Some (VInt 11211) \<and>
   rd_vals (fst (SetAttributeMap (pair_layer TypeInt True)
                   (pair_state TypeInt (VInt 512) (VInt 11211))
                   (pair_bag ''garbage'' ''n/a''))) ''first_setting''
     = Some (VInt 512)"
  by (simp add: SetAttributeMap_def pair_layer_def pair_state_def pair_bag_def Set_def
        Atoi_def byte_digit_def)

text \<open>
  Claim C10.  A boolean attribute whose bag entry is present is to be set to false for
  the token \<open>false\<close> and to true otherwise.  With two boolean attributes that the
  state holds as false and the bag holds as \<open>true\<close>, the one visited first becomes
  true and the function returns; the other one stays false, in whichever order the two
  are visited.
\<close>

theorem SetAttributeMap_stale_boolean:
  "rd_vals (fst (SetAttributeMap (pair_layer TypeBool False)
                   (pair_state TypeBool (VBool False) (VBool False))
                   (pair_bag ''true'' ''true''))) ''first_setting''
     = Some (VBool True) \<and>
   rd_vals (fst (SetAttributeMap (pair_layer TypeBool False)
                   (pair_state TypeBool (VBool False) (VBool False))
                   (pair_bag ''true'' ''true''))) ''second_setting''
     = Some (VBool False) \<and>
   rd_vals (fst (SetAttributeMap (pair_layer TypeBool True)
                   (pair_state TypeBool (VBool False) (VBool False))
                   (pair_bag ''true'' ''true''))) ''first_setting''
     = Some (VBool False)"
  by (simp add: SetAttributeMap_def pair_layer_def pair_state_def pair_bag_def Set_def
        opsworksFalseString_def)

text \<open>
  What holds of the round trip.  Let the remote keys of a layer type be pairwise
  distinct (its local keys are, being the keys of a map) and let the state match the
  declared types.  If \<open>AttributeMap\<close> encodes the state into a bag, then
  \<open>SetAttributeMap\<close>, visiting the attributes in any order, decodes that bag into
  the very state it was encoded from without error, and afterwards every attribute that
  is not write-only has a supported type and reads as it did before: the one attribute
  that is written gets back the value it had.  Whatever bag is decoded, the stored
  value of every write-only attribute is left as it was.
\<close>

lemma roundtrip_into_encoded_state:
  assumes keys: "distinct (map fst (Attributes lt))"
    and names: "distinct (attr_names (Attributes lt))"
    and typed: "state_matches lt d"
    and enc: "AttributeMap lt d = Inr attrs"
    and order: "set visited = set (Attributes lt)"
  shows "(\<exists>d'. SetAttributeMap (lt\<lparr>Attributes := visited\<rparr>) d attrs = (d', None) \<and>
              (\<forall>e \<in> set (Attributes lt). \<not> WriteOnly (snd e) \<longrightarrow>
                  supported_type (Type (snd e)) \<and> Get d' (fst e) = Get d (fst e))) \<and>
         (\<forall>attrs' e. e \<in> set (Attributes lt) \<and> WriteOnly (snd e) \<longrightarrow>
            rd_vals (fst (SetAttributeMap (lt\<lparr>Attributes := visited\<rparr>) d attrs')) (fst e)
              = rd_vals d (fst e))"
proof (intro conjI allI impI)
  from enc have r: "AttributeMap_range (Attributes lt) d Map.empty = Inr attrs"
    by (simp add: AttributeMap_def)
  have entry: "\<exists>v. Get d (fst e) = Some v \<and> has_type (Type (snd e)) v \<and>
                  supported_type (Type (snd e)) \<and>
                  attrs (AttrName (snd e)) = Some (Some (spec_encode v))"
    if mem: "e \<in> set (Attributes lt)" for e
  proof -
    from mem have "(fst e, snd e) \<in> set (Attributes lt)" by simp
    from AttributeMap_range_entry [OF r names this] obtain v where
      v: "Get d (fst e) = Some v" "supported_type (Type (snd e))"
         "attrs (AttrName (snd e)) = Some (Some (spec_encode v))"
      by blast
    from typed mem have "value_matches d e"
      by (simp add: state_matches_def list_all_iff)
    with v(1,2) have "has_type (Type (snd e)) v"
      by (cases e) (simp add: value_matches_def)
    with v show ?thesis by blast
  qed
  with order have "\<forall>e \<in> set visited. \<not> WriteOnly (snd e) \<longrightarrow>
             (\<exists>v. Get d (fst e) = Some v \<and> has_type (Type (snd e)) v \<and>
                  supported_type (Type (snd e)) \<and>
                  attrs (AttrName (snd e)) = Some (Some (spec_encode v)))"
    by blast
  from SetAttributeMap_range_roundtrip [OF this] obtain d' where
    d': "SetAttributeMap_range visited d attrs = (d', None)" "\<forall>k. Get d' k = Get d k"
    by blast
  with entry show "\<exists>d'. SetAttributeMap (lt\<lparr>Attributes := visited\<rparr>) d attrs = (d', None) \<and>
              (\<forall>e \<in> set (Attributes lt). \<not> WriteOnly (snd e) \<longrightarrow>
                  supported_type (Type (snd e)) \<and> Get d' (fst e) = Get d (fst e))"
    by (auto simp: SetAttributeMap_def)
next
  fix attrs' e
  assume e: "e \<in> set (Attributes lt) \<and> WriteOnly (snd e)"
  obtain d' err where res: "SetAttributeMap_range visited d attrs' = (d', err)"
    by (cases "SetAttributeMap_range visited d attrs'")
  have "\<forall>e' \<in> set visited. fst e' = fst e \<longrightarrow> WriteOnly (snd e')"
  proof (intro ballI impI)
    fix e' assume "e' \<in> set visited" "fst e' = fst e"
    with order e keys have "e' = e"
      by (metis eq_key_imp_eq_value prod.collapse)
    with e show "WriteOnly (snd e')" by simp
  qed
  with SetAttributeMap_range_frame [OF res] have "rd_vals d' (fst e) = rd_vals d (fst e)"
    by blast
  with res show "rd_vals (fst (SetAttributeMap (lt\<lparr>Attributes := visited\<rparr>) d attrs')) (fst e)
              = rd_vals d (fst e)"
    by (simp add: SetAttributeMap_def)
qed

lemma example_keys_distinct: "distinct (map fst (Attributes example_layer))"
  by (simp add: example_layer_def example_attributes_def)

lemma roundtrip_into_encoded_state_example:
  "distinct (map fst (Attributes example_layer)) \<and>
   distinct (attr_names (Attributes example_layer)) \<and>
   state_matches example_layer example_state \<and>
   set (rev example_attributes) = set (Attributes example_layer) \<and>
   (\<exists>attrs d'. AttributeMap example_layer example_state = Inr attrs \<and>
      SetAttributeMap (example_layer\<lparr>Attributes := rev example_attributes\<rparr>) example_state attrs
        = (d', None) \<and>
      Get d' ''stats_url'' = Some (VString ''/stats'') \<and>
      Get d' ''stats_enabled'' = Some (VBool False) \<and>
      Get d' ''allocated_memory'' = Some (VInt 512) \<and>
      rd_vals d' ''stats_password'' = Some (VString ''secret''))"
proof -
  have order: "set (rev example_attributes) = set (Attributes example_layer)"
    by (simp add: example_layer_def)
  have "\<forall>e \<in> set (Attributes example_layer). supported_type (Type (snd e))"
    by (simp add: example_layer_def example_attributes_def stats_password_attribute_def
          supported_type_def)
  with example_state_matches obtain attrs where
    enc: "AttributeMap example_layer example_state = Inr attrs"
    using AttributeMap_range_total [of example_state "Attributes example_layer" Map.empty]
    by (auto simp: state_matches_def AttributeMap_def)
  note rt = roundtrip_into_encoded_state
    [OF example_keys_distinct example_names_distinct example_state_matches enc order]
  then obtain d' where
    d': "SetAttributeMap (example_layer\<lparr>Attributes := rev example_attributes\<rparr>) example_state attrs
           = (d', None)"
    and same: "\<forall>e \<in> set (Attributes example_layer). \<not> WriteOnly (snd e) \<longrightarrow>
                  supported_type (Type (snd e)) \<and> Get d' (fst e) = Get example_state (fst e)"
    by blast
  have ex: "Get example_state ''stats_url'' = Some (VString ''/stats'')"
    "Get example_state ''stats_enabled'' = Some (VBool False)"
    "Get example_state ''allocated_memory'' = Some (VInt 512)"
    by (simp_all add: example_state_def Get_def)
  from same have "Get d' ''stats_url'' = Get example_state ''stats_url''"
    "Get d' ''stats_enabled'' = Get example_state ''stats_enabled''"
    "Get d' ''allocated_memory'' = Get example_state ''allocated_memory''"
    by (simp_all add: example_layer_def example_attributes_def)
  with ex have g: "Get d' ''stats_url'' = Some (VString ''/stats'')"
    "Get d' ''stats_enabled'' = Some (VBool False)"
    "Get d' ''allocated_memory'' = Some (VInt 512)"
    by simp_all
  have mem: "(''stats_password'', stats_password_attribute) \<in> set (Attributes example_layer) \<and>
             WriteOnly (snd (''stats_password'', stats_password_attribute))"
    by (simp add: example_layer_def example_attributes_def stats_password_attribute_def)
  from rt have "\<forall>attrs' e. e \<in> set (Attributes example_layer) \<and> WriteOnly (snd e) \<longrightarrow>
            rd_vals (fst (SetAttributeMap (example_layer\<lparr>Attributes := rev example_attributes\<rparr>)
                            example_state attrs')) (fst e)
              = rd_vals example_state (fst e)"
    by blast
  with mem have
    "rd_vals (fst (SetAttributeMap (example_layer\<lparr>Attributes := rev example_attributes\<rparr>)
                     example_state attrs)) (fst (''stats_password'', stats_password_attribute))
       = rd_vals example_state (fst (''stats_password'', stats_password_attribute))"
    by blast
  with d' have "rd_vals d' ''stats_password'' = rd_vals example_state ''stats_password''"
    by simp
  then have w: "rd_vals d' ''stats_password'' = Some (VString ''secret'')"
    by (simp add: example_state_def)
  from enc d' g w example_keys_distinct example_names_distinct example_state_matches order
  show ?thesis by (intro conjI exI [of _ attrs] exI [of _ d']) simp_all
qed

text \<open>
  Claim C2.  The claim asks that a bag encoded from one state, decoded into the local
  state, gives every attribute that is not write-only the value that was encoded.
  Since \<open>SetAttributeMap\<close> returns after the first attribute it finds in the bag,
  this fails as soon as the local state differs from the encoded one in a second
  attribute: the state with \<open>new-1\<close> and \<open>new-2\<close> matches the declared types and
  is encoded into the bag with these two entries, and decoding that bag into a state
  that holds \<open>old-1\<close> and \<open>old-2\<close> leaves the attribute visited second at its
  old value, in whichever order the two are visited.
\<close>

theorem AttributeMap_SetAttributeMap_stale:
  "state_matches (pair_layer TypeString False)
     (pair_state TypeString (VString ''new-1'') (VString ''new-2'')) \<and>
   AttributeMap (pair_layer TypeString False)
     (pair_state TypeString (VString ''new-1'') (VString ''new-2''))
     = Inr (pair_bag ''new-1'' ''new-2'') \<and>
   AttributeMap (pair_layer TypeString True)
     (pair_state TypeString (VString ''new-1'') (VString ''new-2''))
     = Inr (pair_bag ''new-1'' ''new-2'') \<and>
   Get (fst (SetAttributeMap (pair_layer TypeString False)
               (pair_state TypeString (VString ''old-1'') (VString ''old-2''))
               (pair_bag ''new-1'' ''new-2''))) ''second_setting''
     = Some (VString ''old-2'') \<and>
   Get (fst (SetAttributeMap (pair_layer TypeString True)
               (pair_state TypeString (VString ''old-1'') (VString ''old-2''))
               (pair_bag ''new-1'' ''new-2''))) ''first_setting''
     = Some (VString ''old-1'')"
  by (simp add: state_matches_def value_matches_def supported_type_def AttributeMap_def
        SetAttributeMap_def pair_layer_def pair_state_def pair_bag_def Set_def Get_def
        Get_unknown_type_def fun_upd_twist)

section \<open>Volume configurations\<close>

lemma VolumeConfigurations_element_fields:
  assumes "ebs_volume_ok element"
    and "volume_field element ''iops'' = Some (VInt iops)"
    and "volume_field element ''raid_level'' = Some (VString raid_level)"
  shows "\<exists>result_i. VolumeConfigurations_element element = Inr result_i \<and>
           Iops result_i = (if iops = 0 then None else Some iops) \<and>
           RaidLevel result_i = (if raid_level = [] then None else Atoi raid_level)"
proof -
  from assms(1) obtain kvs where kvs: "element = VMap kvs"
    by (cases element) (simp_all add: ebs_volume_ok_def)
  from assms(1) kvs obtain mp nd sz ty en where
    f: "map_of kvs ''mount_point'' = Some (VString mp)"
       "map_of kvs ''number_of_disks'' = Some (VInt nd)"
       "map_of kvs ''size'' = Some (VInt sz)"
       "map_of kvs ''type'' = Some (VString ty)"
       "map_of kvs ''encrypted'' = Some (VBool en)"
    by (auto simp: ebs_volume_ok_def volume_field_def split: option.splits val.splits)
  from assms(2,3) kvs have g:
    "map_of kvs ''iops'' = Some (VInt iops)"
    "map_of kvs ''raid_level'' = Some (VString raid_level)"
    by (simp_all add: volume_field_def)
  show ?thesis
    unfolding VolumeConfigurations_element_def kvs
    by (simp add: f g and_then_def as_map_def as_string_def as_int_def as_bool_def Let_def
          split: option.splits)
qed

lemma ebs_volume_ok_fields:
  "ebs_volume_ok element \<Longrightarrow>
   \<exists>iops raid_level. volume_field element ''iops'' = Some (VInt iops) \<and>
      volume_field element ''raid_level'' = Some (VString raid_level)"
  by (auto simp: ebs_volume_ok_def split: option.splits val.splits)

lemma VolumeConfigurations_loop_elements:
  "list_all ebs_volume_ok volumes \<Longrightarrow>
   \<exists>result. VolumeConfigurations_loop volumes = Inr result \<and> length result = length volumes \<and>
      (\<forall>i < length volumes. VolumeConfigurations_element (volumes ! i) = Inr (result ! i))"
proof (induction volumes)
  case Nil
  then show ?case by simp
next
  case (Cons element rest)
  from Cons.prems obtain iops raid_level where
    "volume_field element ''iops'' = Some (VInt iops)"
    "volume_field element ''raid_level'' = Some (VString raid_level)"
    using ebs_volume_ok_fields [of element] by auto
  with Cons.prems VolumeConfigurations_element_fields [of element iops raid_level]
  obtain result_i where r: "VolumeConfigurations_element element = Inr result_i" by auto
  from Cons obtain results where
    rs: "VolumeConfigurations_loop rest = Inr results" "length results = length rest"
        "\<forall>i < length rest. VolumeConfigurations_element (rest ! i) = Inr (results ! i)"
    by auto
  have "\<forall>i < length (element # rest).
          VolumeConfigurations_element ((element # rest) ! i) = Inr ((result_i # results) ! i)"
    using r rs(3) by (auto simp: nth_Cons split: nat.splits)
  with r rs(1,2) show ?case by (simp add: and_then_def)
qed

lemma example_volume_ok: "ebs_volume_ok (example_volume iops raid_level)"
  by (simp add: ebs_volume_ok_def example_volume_def volume_field_def)

lemma volume_state_Get: "Get (volume_state volumes) ''ebs_volume'' = Some (VSet volumes)"
  by (simp add: volume_state_def Get_def)

text \<open>
  Claim C8.  When the state holds well-formed volume configurations,
  \<open>VolumeConfigurations\<close> returns one request record per volume, in the same order,
  and the record of a volume leaves the IOPS field out when the volume's IOPS value is
  0 and carries that value otherwise.
\<close>

theorem VolumeConfigurations_iops:
  assumes "Get d ''ebs_volume'' = Some (VSet volumes)"
    and "list_all ebs_volume_ok volumes"
  shows "\<exists>result. VolumeConfigurations lt d = Inr result \<and> length result = length volumes \<and>
           (\<forall>i < length volumes. \<forall>iops.
              volume_field (volumes ! i) ''iops'' = Some (VInt iops) \<longrightarrow>
              Iops (result ! i) = (if iops = 0 then None else Some iops))"
proof -
  from VolumeConfigurations_loop_elements [OF assms(2)] obtain result where
    r: "VolumeConfigurations_loop volumes = Inr result" "length result = length volumes"
       "\<forall>i < length volumes. VolumeConfigurations_element (volumes ! i) = Inr (result ! i)"
    by blast
  have "Iops (result ! i) = (if iops = 0 then None else Some iops)"
    if i: "i < length volumes" and f: "volume_field (volumes ! i) ''iops'' = Some (VInt iops)"
    for i iops
  proof -
    from assms(2) i have ok: "ebs_volume_ok (volumes ! i)" by (simp add: list_all_length)
    then obtain raid_level where
      "volume_field (volumes ! i) ''raid_level'' = Some (VString raid_level)"
      using ebs_volume_ok_fields by blast
    from VolumeConfigurations_element_fields [OF ok f this] r(3) i show ?thesis by auto
  qed
  then have "\<forall>i < length volumes. \<forall>iops.
              volume_field (volumes ! i) ''iops'' = Some (VInt iops) \<longrightarrow>
              Iops (result ! i) = (if iops = 0 then None else Some iops)"
    by blast
  moreover from r(1) assms(1) have "VolumeConfigurations lt d = Inr result"
    by (simp add: VolumeConfigurations_def and_then_def as_set_def)
  ultimately show ?thesis using r(2) by blast
qed

theorem VolumeConfigurations_iops_witness:
  "Get (volume_state [example_volume 0 [], example_volume 100 []]) ''ebs_volume''
     = Some (VSet [example_volume 0 [], example_volume 100 []]) \<and>
   list_all ebs_volume_ok [example_volume 0 [], example_volume 100 []] \<and>
   (\<exists>result. VolumeConfigurations example_layer
                (volume_state [example_volume 0 [], example_volume 100 []]) = Inr result \<and>
      map Iops result = [None, Some 100])"
proof -
  let ?vs = "[example_volume 0 [], example_volume 100 []]"
  have ok: "list_all ebs_volume_ok ?vs" by (simp add: example_volume_ok)
  from VolumeConfigurations_iops [OF volume_state_Get ok, of example_layer] obtain result where
    r: "VolumeConfigurations example_layer (volume_state ?vs) = Inr result"
       "length result = length ?vs"
       "\<forall>i < length ?vs. \<forall>iops.
              volume_field (?vs ! i) ''iops'' = Some (VInt iops) \<longrightarrow>
              Iops (result ! i) = (if iops = 0 then None else Some iops)"
    by blast
  from r(3) have "Iops (result ! 0) = None" "Iops (result ! 1) = Some 100"
    by (simp_all add: example_volume_def volume_field_def)
  moreover from r(2) obtain a b where "result = [a, b]"
    by (cases result; cases "tl result") auto
  ultimately have "map Iops result = [None, Some 100]" by simp
  with r(1) ok volume_state_Get [of ?vs] show ?thesis
    by (intro conjI exI [of _ result]) simp_all
qed

text \<open>
  Claim C9.  When the state holds well-formed volume configurations,
  \<open>VolumeConfigurations\<close> returns (no error) one request record per volume, and the
  RAID level of the record is left out for an empty RAID-level string and is otherwise
  what \<open>Atoi\<close> makes of the string: left out when the string does not parse, the
  integer when it does; in particular the decimal numeral of an integer yields that
  integer.
\<close>

theorem VolumeConfigurations_raid_level:
  assumes "Get d ''ebs_volume'' = Some (VSet volumes)"
    and "list_all ebs_volume_ok volumes"
  shows "\<exists>result. VolumeConfigurations lt d = Inr result \<and> length result = length volumes \<and>
           (\<forall>i < length volumes. \<forall>raid_level.
              volume_field (volumes ! i) ''raid_level'' = Some (VString raid_level) \<longrightarrow>
              RaidLevel (result ! i) = (if raid_level = [] then None else Atoi raid_level) \<and>
              (\<forall>n. go_int n \<and> raid_level = Itoa n \<longrightarrow> RaidLevel (result ! i) = Some n))"
proof -
  from VolumeConfigurations_loop_elements [OF assms(2)] obtain result where
    r: "VolumeConfigurations_loop volumes = Inr result" "length result = length volumes"
       "\<forall>i < length volumes. VolumeConfigurations_element (volumes ! i) = Inr (result ! i)"
    by blast
  have "RaidLevel (result ! i) = (if raid_level = [] then None else Atoi raid_level) \<and>
        (\<forall>n. go_int n \<and> raid_level = Itoa n \<longrightarrow> RaidLevel (result ! i) = Some n)"
    if i: "i < length volumes"
      and f: "volume_field (volumes ! i) ''raid_level'' = Some (VString raid_level)"
    for i raid_level
  proof -
    from assms(2) i have ok: "ebs_volume_ok (volumes ! i)" by (simp add: list_all_length)
    then obtain iops where "volume_field (volumes ! i) ''iops'' = Some (VInt iops)"
      using ebs_volume_ok_fields by blast
    from VolumeConfigurations_element_fields [OF ok this f] r(3) i
    have a: "RaidLevel (result ! i) = (if raid_level = [] then None else Atoi raid_level)"
      by auto
    have "RaidLevel (result ! i) = Some n" if n: "go_int n" "raid_level = Itoa n" for n
    proof -
      from Atoi_Itoa [OF n(1)] n(2) have p: "Atoi raid_level = Some n" by simp
      then have "raid_level \<noteq> []" by (auto simp: Atoi_def)
      with a p show ?thesis by simp
    qed
    with a show ?thesis by blast
  qed
  then have "\<forall>i < length volumes. \<forall>raid_level.
              volume_field (volumes ! i) ''raid_level'' = Some (VString raid_level) \<longrightarrow>
              RaidLevel (result ! i) = (if raid_level = [] then None else Atoi raid_level) \<and>
              (\<forall>n. go_int n \<and> raid_level = Itoa n \<longrightarrow> RaidLevel (result ! i) = Some n)"
    by blast
  moreover from r(1) assms(1) have "VolumeConfigurations lt d = Inr result"
    by (simp add: VolumeConfigurations_def and_then_def as_set_def)
  ultimately show ?thesis using r(2) by blast
qed

theorem VolumeConfigurations_raid_level_witness:
  "Get (volume_state [example_volume 0 ''5'', example_volume 0 ''invalid'', example_volume 0 []])
       ''ebs_volume''
     = Some (VSet [example_volume 0 ''5'', example_volume 0 ''invalid'', example_volume 0 []]) \<and>
   list_all ebs_volume_ok
     [example_volume 0 ''5'', example_volume 0 ''invalid'', example_volume 0 []] \<and>
   (\<exists>result. VolumeConfigurations example_layer
                (volume_state [example_volume 0 ''5'', example_volume 0 ''invalid'',
                               example_volume 0 []]) = Inr result \<and>
      map RaidLevel result = [Some 5, None, None])"
proof -
  let ?vs = "[example_volume 0 ''5'', example_volume 0 ''invalid'', example_volume 0 []]"
  have ok: "list_all ebs_volume_ok ?vs" by (simp add: example_volume_ok)
  from VolumeConfigurations_raid_level [OF volume_state_Get ok, of example_layer]
  obtain result where
    r: "VolumeConfigurations example_layer (volume_state ?vs) = Inr result"
       "length result = length ?vs"
       "\<forall>i < length ?vs. \<forall>raid_level.
              volume_field (?vs ! i) ''raid_level'' = Some (VString raid_level) \<longrightarrow>
              RaidLevel (result ! i) = (if raid_level = [] then None else Atoi raid_level) \<and>
              (\<forall>n. go_int n \<and> raid_level = Itoa n \<longrightarrow> RaidLevel (result ! i) = Some n)"
    by blast
  have "RaidLevel (result ! 0) = Some 5"
    using r(3) [rule_format, of 0 "''5''"]
    by (simp add: example_volume_def volume_field_def Atoi_def byte_digit_def go_int_def)
  moreover have "RaidLevel (result ! 1) = None"
    using r(3) [rule_format, of 1 "''invalid''"]
    by (simp add: example_volume_def volume_field_def Atoi_def byte_digit_def)
  moreover have "RaidLevel (result ! 2) = None"
    using r(3) [rule_format, of 2 "[]"]
    by (simp add: example_volume_def volume_field_def)
  moreover from r(2) obtain a b c where "result = [a, b, c]"
    by (cases result; cases "tl result"; cases "tl (tl result)") auto
  ultimately have "map RaidLevel result = [Some 5, None, None]" by simp
  with r(1) ok volume_state_Get [of ?vs] show ?thesis
    by (intro conjI exI [of _ result]) simp_all
qed

section \<open>Update and the load balancer\<close>

lemma Update_elastic_load_balancer_result:
  assumes "GetChange d ''elastic_load_balancer'' = (Some (VString lbo), Some (VString lbn))"
    and "lbo \<noteq> lbn"
  shows "Update_elastic_load_balancer d conn
           = ((if lbo \<noteq> [] then [DetachElasticLoadBalancerCall lbo (rd_id d)] else []) @
              (if lbn \<noteq> [] \<and> (lbo = [] \<or> DetachElasticLoadBalancer conn lbo (rd_id d) = None)
               then [AttachElasticLoadBalancerCall lbn (rd_id d)] else []),
              (if lbo \<noteq> [] \<and> DetachElasticLoadBalancer conn lbo (rd_id d) \<noteq> None
               then DetachElasticLoadBalancer conn lbo (rd_id d)
               else if lbn \<noteq> [] then AttachElasticLoadBalancer conn lbn (rd_id d)
               else None))"
  using assms
  by (auto simp: Update_elastic_load_balancer_def HasChange_def as_string_def Let_def
           split: option.splits)

lemma Update_after_load_balancer:
  assumes "AttributeMap lt d = Inr attributes" "Update_request lt d attributes = Inr req"
    and "Update_elastic_load_balancer d conn = (calls, failure)"
  shows "(\<forall>err. failure = Some err \<longrightarrow> Update lt d conn = (calls, Failed err)) \<and>
         (failure = None \<longrightarrow>
            (\<exists>rest. fst (Update lt d conn) = calls @ UpdateLayerCall req # rest \<and>
                    load_balancer_calls rest = []))"
  using assms
  by (auto simp: Update_def load_balancer_calls_def split: option.splits sum.splits prod.splits)

lemma update_state_schema:
  "rd_schema (update_state lbo lbn) = SchemaResource example_layer"
  "rd_vals (update_state lbo lbn) = [''elastic_load_balancer'' \<mapsto> VString lbn]"
  "rd_prior (update_state lbo lbn) = [''elastic_load_balancer'' \<mapsto> VString lbo]"
  "rd_id (update_state lbo lbn) = ''layer-1''"
  by (simp_all add: update_state_def)

lemma SchemaResource_example:
  "SchemaResource example_layer ''allocated_memory'' = Some TypeInt"
  "SchemaResource example_layer ''stats_enabled'' = Some TypeBool"
  "SchemaResource example_layer ''stats_url'' = Some TypeString"
  "SchemaResource example_layer ''stats_password'' = Some TypeString"
  "SchemaResource example_layer ''auto_assign_elastic_ips'' = Some TypeBool"
  "SchemaResource example_layer ''auto_assign_public_ips'' = Some TypeBool"
  "SchemaResource example_layer ''custom_instance_profile_arn'' = Some TypeString"
  "SchemaResource example_layer ''elastic_load_balancer'' = Some TypeString"
  "SchemaResource example_layer ''custom_setup_recipes'' = Some TypeList"
  "SchemaResource example_layer ''custom_configure_recipes'' = Some TypeList"
  "SchemaResource example_layer ''custom_deploy_recipes'' = Some TypeList"
  "SchemaResource example_layer ''custom_undeploy_recipes'' = Some TypeList"
  "SchemaResource example_layer ''custom_shutdown_recipes'' = Some TypeList"
  "SchemaResource example_layer ''custom_security_group_ids'' = Some TypeSet"
  "SchemaResource example_layer ''custom_json'' = Some TypeString"
  "SchemaResource example_layer ''auto_healing'' = Some TypeBool"
  "SchemaResource example_layer ''install_updates_on_boot'' = Some TypeBool"
  "SchemaResource example_layer ''instance_shutdown_timeout'' = Some TypeInt"
  "SchemaResource example_layer ''drain_elb_on_shutdown'' = Some TypeBool"
  "SchemaResource example_layer ''system_packages'' = Some TypeSet"
  "SchemaResource example_layer ''use_ebs_optimized_instances'' = Some TypeBool"
  "SchemaResource example_layer ''ebs_volume'' = Some TypeSet"
  "SchemaResource example_layer ''name'' = Some TypeString"
  by (simp_all add: SchemaResource_def SchemaResource_attribute_def example_layer_def
        example_attributes_def stats_password_attribute_def)

lemma example_layer_sel:
  "Attributes example_layer = example_attributes"
  "CustomShortName example_layer = False"
  "TypeName example_layer = ''lb''"
  by (simp_all add: example_layer_def)

lemma update_state_Get:
  "Get (update_state lbo lbn) ''allocated_memory'' = Some (VInt 0)"
  "Get (update_state lbo lbn) ''stats_enabled'' = Some (VBool False)"
  "Get (update_state lbo lbn) ''stats_url'' = Some (VString [])"
  "Get (update_state lbo lbn) ''stats_password'' = Some (VString [])"
  "Get (update_state lbo lbn) ''auto_assign_elastic_ips'' = Some (VBool False)"
  "Get (update_state lbo lbn) ''auto_assign_public_ips'' = Some (VBool False)"
  "Get (update_state lbo lbn) ''custom_instance_profile_arn'' = Some (VString [])"
  "Get (update_state lbo lbn) ''elastic_load_balancer'' = Some (VString lbn)"
  "Get (update_state lbo lbn) ''custom_setup_recipes'' = Some (VList [])"
  "Get (update_state lbo lbn) ''custom_configure_recipes'' = Some (VList [])"
  "Get (update_state lbo lbn) ''custom_deploy_recipes'' = Some (VList [])"
  "Get (update_state lbo lbn) ''custom_undeploy_recipes'' = Some (VList [])"
  "Get (update_state lbo lbn) ''custom_shutdown_recipes'' = Some (VList [])"
  "Get (update_state lbo lbn) ''custom_security_group_ids'' = Some (VSet [])"
  "Get (update_state lbo lbn) ''custom_json'' = Some (VString [])"
  "Get (update_state lbo lbn) ''auto_healing'' = Some (VBool False)"
  "Get (update_state lbo lbn) ''install_updates_on_boot'' = Some (VBool False)"
  "Get (update_state lbo lbn) ''instance_shutdown_timeout'' = Some (VInt 0)"
  "Get (update_state lbo lbn) ''drain_elb_on_shutdown'' = Some (VBool False)"
  "Get (update_state lbo lbn) ''system_packages'' = Some (VSet [])"
  "Get (update_state lbo lbn) ''use_ebs_optimized_instances'' = Some (VBool False)"
  "Get (update_state lbo lbn) ''ebs_volume'' = Some (VSet [])"
  "Get (update_state lbo lbn) ''name'' = Some (VString [])"
  by (simp_all add: Get_def update_state_schema SchemaResource_example)

lemma update_state_AttributeMap:
  "\<exists>attributes. AttributeMap example_layer (update_state lbo lbn) = Inr attributes"
  by (simp add: AttributeMap_def example_layer_sel example_attributes_def
        stats_password_attribute_def update_state_Get Get_unknown_type_def
        update_state_schema SchemaResource_example)

lemma update_state_request:
  "\<exists>req. Update_request example_layer (update_state lbo lbn) attributes = Inr req"
  by (simp add: Update_request_def CustomRecipes_def LifecycleEventConfiguration_def
        VolumeConfigurations_def and_then_def as_bool_def as_string_def as_int_def
        as_list_def as_set_def update_state_Get example_layer_sel)

lemma update_state_GetChange:
  "GetChange (update_state lbo lbn) ''elastic_load_balancer''
     = (Some (VString lbo), Some (VString lbn))"
  by (simp add: GetChange_def GetOld_def update_state_Get update_state_schema
        SchemaResource_example)


text \<open>
  Claim C5, as amended.  Take an update whose attribute map and request are built
  without failure and whose load-balancer identifier changed from \<open>lbo\<close> to \<open>lbn\<close>.
  The load-balancer calls it issues are its first calls and are, in this order: a
  detach call for \<open>lbo\<close> exactly when \<open>lbo\<close> is not empty, and an attach call for
  \<open>lbn\<close> exactly when \<open>lbn\<close> is not empty and the detach call, if there was one,
  did not fail.  A detach call that fails makes the update return the error of that
  call with no further call, and so does an attach call that fails; when neither
  fails, the next call is the update of the layer with the request.
\<close>

theorem Update_load_balancer_calls:
  assumes "AttributeMap lt d = Inr attributes"
    and "Update_request lt d attributes = Inr req"
    and "GetChange d ''elastic_load_balancer'' = (Some (VString lbo), Some (VString lbn))"
    and "lbo \<noteq> lbn"
  shows "load_balancer_calls (fst (Update lt d conn))
           = (if lbo \<noteq> [] then [DetachElasticLoadBalancerCall lbo (rd_id d)] else []) @
             (if lbn \<noteq> [] \<and> (lbo = [] \<or> DetachElasticLoadBalancer conn lbo (rd_id d) = None)
              then [AttachElasticLoadBalancerCall lbn (rd_id d)] else []) \<and>
         (\<exists>rest. fst (Update lt d conn)
                   = (if lbo \<noteq> [] then [DetachElasticLoadBalancerCall lbo (rd_id d)] else []) @
                     (if lbn \<noteq> [] \<and>
                         (lbo = [] \<or> DetachElasticLoadBalancer conn lbo (rd_id d) = None)
                      then [AttachElasticLoadBalancerCall lbn (rd_id d)] else []) @ rest \<and>
                 load_balancer_calls rest = []) \<and>
         (\<forall>err. lbo \<noteq> [] \<and> DetachElasticLoadBalancer conn lbo (rd_id d) = Some err \<longrightarrow>
            Update lt d conn = ([DetachElasticLoadBalancerCall lbo (rd_id d)], Failed err)) \<and>
         (\<forall>err. lbn \<noteq> [] \<and> (lbo = [] \<or> DetachElasticLoadBalancer conn lbo (rd_id d) = None) \<and>
              AttachElasticLoadBalancer conn lbn (rd_id d) = Some err \<longrightarrow>
            Update lt d conn
              = ((if lbo \<noteq> [] then [DetachElasticLoadBalancerCall lbo (rd_id d)] else []) @
                 [AttachElasticLoadBalancerCall lbn (rd_id d)], Failed err)) \<and>
         ((lbo = [] \<or> DetachElasticLoadBalancer conn lbo (rd_id d) = None) \<and>
          (lbn = [] \<or> AttachElasticLoadBalancer conn lbn (rd_id d) = None) \<longrightarrow>
            (\<exists>rest. fst (Update lt d conn)
                      = (if lbo \<noteq> [] then [DetachElasticLoadBalancerCall lbo (rd_id d)] else []) @
                        (if lbn \<noteq> [] then [AttachElasticLoadBalancerCall lbn (rd_id d)] else []) @
                        UpdateLayerCall req # rest))"
proof -
  define calls where "calls =
    (if lbo \<noteq> [] then [DetachElasticLoadBalancerCall lbo (rd_id d)] else []) @
    (if lbn \<noteq> [] \<and> (lbo = [] \<or> DetachElasticLoadBalancer conn lbo (rd_id d) = None)
     then [AttachElasticLoadBalancerCall lbn (rd_id d)] else [])"
  define failure where "failure =
    (if lbo \<noteq> [] \<and> DetachElasticLoadBalancer conn lbo (rd_id d) \<noteq> None
     then DetachElasticLoadBalancer conn lbo (rd_id d)
     else if lbn \<noteq> [] then AttachElasticLoadBalancer conn lbn (rd_id d)
     else None)"
  have block: "Update_elastic_load_balancer d conn = (calls, failure)"
    unfolding calls_def failure_def
    by (rule Update_elastic_load_balancer_result [OF assms(3,4)])
  note after = Update_after_load_balancer [OF assms(1,2) block]
  have lb: "load_balancer_calls calls = calls"
    by (simp add: calls_def load_balancer_calls_def)
  have prefix: "\<exists>rest. fst (Update lt d conn) = calls @ rest \<and> load_balancer_calls rest = []"
  proof (cases failure)
    case None
    with after obtain rest where
      "fst (Update lt d conn) = calls @ UpdateLayerCall req # rest"
      "load_balancer_calls rest = []"
      by blast
    then have "fst (Update lt d conn) = calls @ (UpdateLayerCall req # rest) \<and>
               load_balancer_calls (UpdateLayerCall req # rest) = []"
      by (simp add: load_balancer_calls_def)
    then show ?thesis by blast
  next
    case (Some err)
    with after have "fst (Update lt d conn) = calls @ [] \<and> load_balancer_calls [] = []"
      by (simp add: load_balancer_calls_def)
    then show ?thesis by blast
  qed
  then have c1: "load_balancer_calls (fst (Update lt d conn)) = calls"
    using lb by (auto simp: load_balancer_calls_def)
  have c3: "\<forall>err. lbo \<noteq> [] \<and> DetachElasticLoadBalancer conn lbo (rd_id d) = Some err \<longrightarrow>
            Update lt d conn = ([DetachElasticLoadBalancerCall lbo (rd_id d)], Failed err)"
    using after by (auto simp: calls_def failure_def)
  have c4: "\<forall>err. lbn \<noteq> [] \<and> (lbo = [] \<or> DetachElasticLoadBalancer conn lbo (rd_id d) = None) \<and>
              AttachElasticLoadBalancer conn lbn (rd_id d) = Some err \<longrightarrow>
            Update lt d conn
              = ((if lbo \<noteq> [] then [DetachElasticLoadBalancerCall lbo (rd_id d)] else []) @
                 [AttachElasticLoadBalancerCall lbn (rd_id d)], Failed err)"
    using after by (auto simp: calls_def failure_def)
  have c5: "(lbo = [] \<or> DetachElasticLoadBalancer conn lbo (rd_id d) = None) \<and>
          (lbn = [] \<or> AttachElasticLoadBalancer conn lbn (rd_id d) = None) \<longrightarrow>
            (\<exists>rest. fst (Update lt d conn)
                      = (if lbo \<noteq> [] then [DetachElasticLoadBalancerCall lbo (rd_id d)] else []) @
                        (if lbn \<noteq> [] then [AttachElasticLoadBalancerCall lbn (rd_id d)] else []) @
                        UpdateLayerCall req # rest)"
    using after by (auto simp: calls_def failure_def)
  from c1 prefix c3 c4 c5 show ?thesis
    unfolding calls_def by (simp only: append_assoc)
qed

theorem Update_load_balancer_calls_witness:
  "Update example_layer (update_state ''lb-1'' ''lb-2'') conn_detach_fails
     = ([DetachElasticLoadBalancerCall ''lb-1'' ''layer-1''],
        Failed (ApiError ''detach failed'')) \<and>
   load_balancer_calls (fst (Update example_layer (update_state ''lb-1'' ''lb-2'') conn_ok))
     = [DetachElasticLoadBalancerCall ''lb-1'' ''layer-1'',
        AttachElasticLoadBalancerCall ''lb-2'' ''layer-1''] \<and>
   load_balancer_calls (fst (Update example_layer (update_state [] ''lb-2'') conn_ok))
     = [AttachElasticLoadBalancerCall ''lb-2'' ''layer-1''] \<and>
   load_balancer_calls (fst (Update example_layer (update_state ''lb-1'' []) conn_ok))
     = [DetachElasticLoadBalancerCall ''lb-1'' ''layer-1'']"
proof -
  have run: "load_balancer_calls (fst (Update example_layer (update_state lbo lbn) conn))
           = (if lbo \<noteq> [] then [DetachElasticLoadBalancerCall lbo ''layer-1''] else []) @
             (if lbn \<noteq> [] \<and> (lbo = [] \<or> DetachElasticLoadBalancer conn lbo ''layer-1'' = None)
              then [AttachElasticLoadBalancerCall lbn ''layer-1''] else [])"
    and fail: "\<forall>err. lbo \<noteq> [] \<and> DetachElasticLoadBalancer conn lbo ''layer-1'' = Some err \<longrightarrow>
            Update example_layer (update_state lbo lbn) conn
              = ([DetachElasticLoadBalancerCall lbo ''layer-1''], Failed err)"
    if "lbo \<noteq> lbn" for lbo lbn conn
  proof -
    obtain attributes where
      a: "AttributeMap example_layer (update_state lbo lbn) = Inr attributes"
      using update_state_AttributeMap by blast
    obtain req where
      r: "Update_request example_layer (update_state lbo lbn) attributes = Inr req"
      using update_state_request by blast
    note u = Update_load_balancer_calls [OF a r update_state_GetChange that, of conn]
    from u [THEN conjunct1]
    show "load_balancer_calls (fst (Update example_layer (update_state lbo lbn) conn))
           = (if lbo \<noteq> [] then [DetachElasticLoadBalancerCall lbo ''layer-1''] else []) @
             (if lbn \<noteq> [] \<and> (lbo = [] \<or> DetachElasticLoadBalancer conn lbo ''layer-1'' = None)
              then [AttachElasticLoadBalancerCall lbn ''layer-1''] else [])"
      by (simp add: update_state_schema)
    from u [THEN conjunct2, THEN conjunct2, THEN conjunct1]
    show "\<forall>err. lbo \<noteq> [] \<and> DetachElasticLoadBalancer conn lbo ''layer-1'' = Some err \<longrightarrow>
            Update example_layer (update_state lbo lbn) conn
              = ([DetachElasticLoadBalancerCall lbo ''layer-1''], Failed err)"
      by (simp add: update_state_schema)
  qed
  have "Update example_layer (update_state ''lb-1'' ''lb-2'') conn_detach_fails
     = ([DetachElasticLoadBalancerCall ''lb-1'' ''layer-1''],
        Failed (ApiError ''detach failed''))"
    using fail [of "''lb-1''" "''lb-2''" conn_detach_fails]
    by (simp add: conn_detach_fails_def conn_ok_def)
  then show ?thesis
    using run [of "''lb-1''" "''lb-2''" conn_ok] run [of "[]" "''lb-2''" conn_ok]
      run [of "''lb-1''" "[]" conn_ok]
    by (simp add: conn_ok_def)
qed

text \<open>
  Claim C5 as stated fails: with the identifier changed from \<open>lb-1\<close> to \<open>lb-2\<close>
  (the new one not empty) and a detach call that fails, the update returns the error of
  the detach call and issues no attach call.
\<close>

theorem Update_detach_failure_counterexample:
  "GetChange (update_state ''lb-1'' ''lb-2'') ''elastic_load_balancer''
     = (Some (VString ''lb-1''), Some (VString ''lb-2'')) \<and>
   ''lb-2'' \<noteq> [] \<and>
   Update example_layer (update_state ''lb-1'' ''lb-2'') conn_detach_fails
     = ([DetachElasticLoadBalancerCall ''lb-1'' ''layer-1''], Failed (ApiError ''detach failed''))"
proof -
  obtain attributes where
    a: "AttributeMap example_layer (update_state ''lb-1'' ''lb-2'') = Inr attributes"
    using update_state_AttributeMap by blast
  obtain req where
    r: "Update_request example_layer (update_state ''lb-1'' ''lb-2'') attributes = Inr req"
    using update_state_request by blast
  have b: "Update_elastic_load_balancer (update_state ''lb-1'' ''lb-2'') conn_detach_fails
             = ([DetachElasticLoadBalancerCall ''lb-1'' ''layer-1''],
                Some (ApiError ''detach failed''))"
    by (simp add: Update_elastic_load_balancer_def HasChange_def update_state_GetChange
          as_string_def conn_detach_fails_def conn_ok_def update_state_schema)
  from a r b show ?thesis
    by (simp add: Update_def update_state_GetChange)
qed

section \<open>The pool lookup\<close>

lemma Split_not_Nil: "Split s sep \<noteq> []"
  by (induction s) (auto split: list.splits)

lemma Split_no_sep: "sep \<notin> set s \<Longrightarrow> Split s sep = [s]"
  by (induction s) auto

lemma Split_at_sep: "sep \<notin> set pre \<Longrightarrow> Split (pre @ sep # rest) sep = pre # Split rest sep"
  by (induction pre) auto

lemma Split_single: "length (Split s sep) \<le> 1 \<longleftrightarrow> sep \<notin> set s"
proof
  assume "sep \<notin> set s"
  then show "length (Split s sep) \<le> 1" by (simp add: Split_no_sep)
next
  assume short: "length (Split s sep) \<le> 1"
  show "sep \<notin> set s"
  proof
    assume "sep \<in> set s"
    then obtain pre rest where "s = pre @ sep # rest" "sep \<notin> set pre"
      by (auto dest: split_list_first)
    then have "length (Split s sep) = Suc (length (Split rest sep))"
      by (simp add: Split_at_sep)
    with short Split_not_Nil [of rest sep] show False by simp
  qed
qed

lemma Split_second:
  assumes "sep \<notin> set pre" "sep \<notin> set seg" "rest = [] \<or> hd rest = sep"
  shows "Split (pre @ sep # seg @ rest) sep ! 1 = seg"
proof -
  have "hd (Split (seg @ rest) sep) = seg"
  proof (cases rest)
    case Nil
    with assms(2) show ?thesis by (simp add: Split_no_sep)
  next
    case (Cons c cs)
    with assms(3) have "rest = sep # cs" by simp
    with assms(2) show ?thesis by (simp add: Split_at_sep)
  qed
  with assms(1) Split_not_Nil [of "seg @ rest" sep] show ?thesis
    by (simp add: Split_at_sep hd_conv_nth)
qed

lemma pool_scope_split:
  assumes "IpamScopeArn pool = Some arn"
  shows "(CHR ''/'' \<notin> set arn \<longrightarrow>
            dataSourceVPCIpamPoolRead_pool d conn pool = Inl IndexOutOfRangePanic) \<and>
         (CHR ''/'' \<in> set arn \<longrightarrow>
            (\<exists>d'. dataSourceVPCIpamPoolRead_pool d conn pool = Inr d' \<and>
               rd_vals d' ''ipam_scope_id'' = Some (VString (Split arn CHR ''/'' ! 1))))"
  using assms Split_single [of arn "CHR ''/''"]
  by (auto simp: dataSourceVPCIpamPoolRead_pool_def Let_def Set_def SetId_def)

lemma pool_state_input:
  "dataSourceVPCIpamPoolRead_input pool_state conn = Inr \<lparr>IpamPoolIds = None, Filters = None\<rparr>"
  by (simp add: dataSourceVPCIpamPoolRead_input_def and_then_def GetOk_def Get_def
        pool_state_def DataSourceVPCIpamPool_def)

lemma pool_conn_answer:
  "DescribeIpamPools (pool_conn pools) input = Inr (Some \<lparr>IpamPools = pools\<rparr>)"
  by (simp add: pool_conn_def)

text \<open>
  Claim C3, as amended.  The lookup reads the compound scope identifier of one record
  only, the first one of the answer.  When that identifier is \<open>arn\<close>, the read
  panics with an index out of range exactly when \<open>arn\<close> contains no \<open>/\<close>;
  otherwise it succeeds and stores as \<^verbatim>\<open>ipam_scope_id\<close> the second piece of
  \<open>arn\<close> split at \<open>/\<close>, which is the text between the first \<open>/\<close> and the next
  one (or the end).  The records after the first have no part in this.
\<close>

theorem dataSourceVPCIpamPoolRead_scope_id:
  assumes "dataSourceVPCIpamPoolRead_input d conn = Inr input"
    and "DescribeIpamPools conn input = Inr (Some out)"
    and "IpamPools out = Some pool # others"
    and "IpamScopeArn pool = Some arn"
  shows "(dataSourceVPCIpamPoolRead d conn = Inl IndexOutOfRangePanic \<longleftrightarrow>
            CHR ''/'' \<notin> set arn) \<and>
         (CHR ''/'' \<in> set arn \<longrightarrow>
            (\<exists>d'. dataSourceVPCIpamPoolRead d conn = Inr d' \<and>
               rd_vals d' ''ipam_scope_id'' = Some (VString (Split arn CHR ''/'' ! 1)))) \<and>
         (\<forall>pre seg rest. arn = pre @ CHR ''/'' # seg @ rest \<and> CHR ''/'' \<notin> set pre \<and>
              CHR ''/'' \<notin> set seg \<and> (rest = [] \<or> hd rest = CHR ''/'') \<longrightarrow>
            Split arn CHR ''/'' ! 1 = seg)"
proof -
  from assms(1,2,3) have read:
    "dataSourceVPCIpamPoolRead d conn = dataSourceVPCIpamPoolRead_pool d conn pool"
    by (simp add: dataSourceVPCIpamPoolRead_def and_then_def)
  from pool_scope_split [OF assms(4), of d conn] read
  have "(dataSourceVPCIpamPoolRead d conn = Inl IndexOutOfRangePanic \<longleftrightarrow>
            CHR ''/'' \<notin> set arn)"
    by (cases "CHR ''/'' \<in> set arn") auto
  moreover from pool_scope_split [OF assms(4), of d conn] read
  have "CHR ''/'' \<in> set arn \<longrightarrow>
            (\<exists>d'. dataSourceVPCIpamPoolRead d conn = Inr d' \<and>
               rd_vals d' ''ipam_scope_id'' = Some (VString (Split arn CHR ''/'' ! 1)))"
    by simp
  moreover have "\<forall>pre seg rest. arn = pre @ CHR ''/'' # seg @ rest \<and> CHR ''/'' \<notin> set pre \<and>
              CHR ''/'' \<notin> set seg \<and> (rest = [] \<or> hd rest = CHR ''/'') \<longrightarrow>
            Split arn CHR ''/'' ! 1 = seg"
    using Split_second by blast
  ultimately show ?thesis by blast
qed

theorem dataSourceVPCIpamPoolRead_scope_id_witness:
  "(\<exists>d'. dataSourceVPCIpamPoolRead pool_state
           (pool_conn [Some (example_pool ''ipam-pool-1''
              ''arn:aws:ec2::123456789012:ipam-scope/ipam-scope-0a1'')]) = Inr d' \<and>
         rd_vals d' ''ipam_scope_id'' = Some (VString ''ipam-scope-0a1'')) \<and>
   dataSourceVPCIpamPoolRead pool_state
     (pool_conn [Some (example_pool ''ipam-pool-1'' ''ipam-scope-0a1'')])
     = Inl IndexOutOfRangePanic"
proof -
  let ?arn = "''arn:aws:ec2::123456789012:ipam-scope/ipam-scope-0a1''"
  let ?p = "example_pool ''ipam-pool-1'' ?arn"
  let ?q = "example_pool ''ipam-pool-1'' ''ipam-scope-0a1''"
  have a: "IpamScopeArn ?p = Some ?arn" "IpamScopeArn ?q = Some ''ipam-scope-0a1''"
    by (simp_all add: example_pool_def)
  have l: "IpamPools \<lparr>IpamPools = [Some ?p]\<rparr> = Some ?p # []"
    "IpamPools \<lparr>IpamPools = [Some ?q]\<rparr> = Some ?q # []"
    by simp_all
  note good = dataSourceVPCIpamPoolRead_scope_id
    [OF pool_state_input pool_conn_answer l(1) a(1)]
  note bad = dataSourceVPCIpamPoolRead_scope_id
    [OF pool_state_input pool_conn_answer l(2) a(2)]
  have seg: "Split ?arn CHR ''/'' ! 1 = ''ipam-scope-0a1''" by simp
  have "CHR ''/'' \<in> set ?arn" by simp
  with good [THEN conjunct2, THEN conjunct1]
  have "\<exists>d'. dataSourceVPCIpamPoolRead pool_state (pool_conn [Some ?p]) = Inr d' \<and>
         rd_vals d' ''ipam_scope_id'' = Some (VString (Split ?arn CHR ''/'' ! 1))"
    by (rule mp)
  then have "\<exists>d'. dataSourceVPCIpamPoolRead pool_state (pool_conn [Some ?p]) = Inr d' \<and>
         rd_vals d' ''ipam_scope_id'' = Some (VString ''ipam-scope-0a1'')"
    unfolding seg .
  moreover have "CHR ''/'' \<notin> set ''ipam-scope-0a1''" by simp
  with bad [THEN conjunct1] have
    "dataSourceVPCIpamPoolRead pool_state (pool_conn [Some ?q]) = Inl IndexOutOfRangePanic"
    by (rule iffD2)
  ultimately show ?thesis by (rule conjI)
qed

text \<open>
  Claim C3 as stated fails for a record that is not the first: with a second record
  whose compound scope identifier contains no \<open>/\<close>, the read does not panic and
  derives no scope identifier from that record; it stores the one of the first record.
\<close>

theorem dataSourceVPCIpamPoolRead_later_record_counterexample:
  "IpamScopeArn (example_pool ''ipam-pool-2'' ''no-slash-here'') = Some ''no-slash-here'' \<and>
   CHR ''/'' \<notin> set ''no-slash-here'' \<and>
   read_attribute
     (dataSourceVPCIpamPoolRead pool_state
        (pool_conn [Some (example_pool ''ipam-pool-1''
                            ''arn:aws:ec2::123456789012:ipam-scope/ipam-scope-0a1''),
                    Some (example_pool ''ipam-pool-2'' ''no-slash-here'')]))
     ''ipam_scope_id''
     = Inr (Some (VString ''ipam-scope-0a1''))"
  by (simp add: read_attribute_def dataSourceVPCIpamPoolRead_def and_then_def
        pool_state_input pool_conn_answer dataSourceVPCIpamPoolRead_pool_def example_pool_def
        Let_def Set_def SetId_def)

lemma dataSourceVPCIpamPoolRead_pool_error:
  "dataSourceVPCIpamPoolRead_pool d conn pool = Inl e \<Longrightarrow> is_panic e"
  by (auto simp: dataSourceVPCIpamPoolRead_pool_def is_panic_def Let_def
           split: option.splits if_splits)

lemma dataSourceVPCIpamPoolRead_pool_projection:
  assumes "IpamScopeArn pool = Some arn" "CHR ''/'' \<in> set arn"
  shows "\<exists>d'. dataSourceVPCIpamPoolRead_pool d conn pool = Inr d' \<and>
           rd_id d' = (case IpamPoolId pool of Some s \<Rightarrow> s | None \<Rightarrow> []) \<and>
           rd_schema d' = rd_schema d \<and> rd_prior d' = rd_prior d \<and>
           rd_vals d' ''publicly_advertisable''
             = (case PubliclyAdvertisable pool of
                  Some b \<Rightarrow> Some (VBool b)
                | None \<Rightarrow> rd_vals d ''publicly_advertisable'') \<and>
           rd_vals d' ''allocation_resource_tags''
             = Some (AllocationResourceTagsMap conn (AllocationResourceTags pool)) \<and>
           rd_vals d' ''auto_import'' = map_option VBool (AutoImport pool) \<and>
           rd_vals d' ''arn'' = map_option VString (IpamPoolArn pool) \<and>
           rd_vals d' ''description'' = map_option VString (Description pool) \<and>
           rd_vals d' ''ipam_scope_id'' = Some (VString (Split arn CHR ''/'' ! 1)) \<and>
           rd_vals d' ''ipam_scope_type'' = map_option VString (IpamScopeType pool) \<and>
           rd_vals d' ''locale'' = map_option VString (Locale pool) \<and>
           rd_vals d' ''pool_depth'' = map_option VInt (PoolDepth pool) \<and>
           rd_vals d' ''aws_service'' = map_option VString (AwsService pool) \<and>
           rd_vals d' ''source_ipam_pool_id'' = map_option VString (SourceIpamPoolId pool) \<and>
           rd_vals d' ''state'' = map_option VString (State pool) \<and>
           (\<forall>key. key \<notin> set pool_output_attributes \<longrightarrow> rd_vals d' key = rd_vals d key)"
proof -
  from assms(2) Split_single [of arn "CHR ''/''"]
  have long: "\<not> length (Split arn CHR ''/'') \<le> 1"
    by blast
  show ?thesis
    using assms(1) long
    by (cases "PubliclyAdvertisable pool")
       (simp_all add: dataSourceVPCIpamPoolRead_pool_def Let_def Set_def SetId_def
          pool_output_attributes_def)
qed

lemma dataSourceVPCIpamPoolRead_pool_panics:
  "IpamScopeArn pool = None \<Longrightarrow>
     dataSourceVPCIpamPoolRead_pool d conn pool = Inl NilDereferencePanic"
  "IpamScopeArn pool = Some arn \<Longrightarrow> CHR ''/'' \<notin> set arn \<Longrightarrow>
     dataSourceVPCIpamPoolRead_pool d conn pool = Inl IndexOutOfRangePanic"
  using Split_single [of arn "CHR ''/''"]
  by (simp_all add: dataSourceVPCIpamPoolRead_pool_def Let_def)

text \<open>
  Claim C6.  When the list query succeeds, the lookup never returns an error.  With no
  pool in the answer (or a nil first element) it returns leaving the state as it is.
  With one pool or more it selects the first, whatever follows it in the list: the
  identifier of the state becomes that of the first pool and every output attribute is
  set from the field of the first pool it stands for (the scope identifier from the
  compound scope identifier as under C3, \<^verbatim>\<open>publicly_advertisable\<close> only when the
  pool has the field), all other attributes staying as they are.  The only way the
  lookup can fail then is a panic on the compound scope identifier of the first pool.
\<close>

theorem dataSourceVPCIpamPoolRead_first_record:
  assumes "dataSourceVPCIpamPoolRead_input d conn = Inr input"
    and "DescribeIpamPools conn input = Inr (Some out)"
  shows "(IpamPools out = [] \<longrightarrow> dataSourceVPCIpamPoolRead d conn = Inr d) \<and>
         (\<forall>others. IpamPools out = None # others \<longrightarrow>
            dataSourceVPCIpamPoolRead d conn = Inr d) \<and>
         (\<forall>pool others. IpamPools out = Some pool # others \<longrightarrow>
            (IpamScopeArn pool = None \<longrightarrow>
               dataSourceVPCIpamPoolRead d conn = Inl NilDereferencePanic) \<and>
            (\<forall>arn. IpamScopeArn pool = Some arn \<and> CHR ''/'' \<notin> set arn \<longrightarrow>
               dataSourceVPCIpamPoolRead d conn = Inl IndexOutOfRangePanic) \<and>
            (\<forall>arn. IpamScopeArn pool = Some arn \<and> CHR ''/'' \<in> set arn \<longrightarrow>
               (\<exists>d'. dataSourceVPCIpamPoolRead d conn = Inr d' \<and>
                  rd_id d' = (case IpamPoolId pool of Some s \<Rightarrow> s | None \<Rightarrow> []) \<and>
                  rd_schema d' = rd_schema d \<and> rd_prior d' = rd_prior d \<and>
                  rd_vals d' ''publicly_advertisable''
                    = (case PubliclyAdvertisable pool of
                         Some b \<Rightarrow> Some (VBool b)
                       | None \<Rightarrow> rd_vals d ''publicly_advertisable'') \<and>
                  rd_vals d' ''allocation_resource_tags''
                    = Some (AllocationResourceTagsMap conn (AllocationResourceTags pool)) \<and>
                  rd_vals d' ''auto_import'' = map_option VBool (AutoImport pool) \<and>
                  rd_vals d' ''arn'' = map_option VString (IpamPoolArn pool) \<and>
                  rd_vals d' ''description'' = map_option VString (Description pool) \<and>
                  rd_vals d' ''ipam_scope_id'' = Some (VString (Split arn CHR ''/'' ! 1)) \<and>
                  rd_vals d' ''ipam_scope_type'' = map_option VString (IpamScopeType pool) \<and>
                  rd_vals d' ''locale'' = map_option VString (Locale pool) \<and>
                  rd_vals d' ''pool_depth'' = map_option VInt (PoolDepth pool) \<and>
                  rd_vals d' ''aws_service'' = map_option VString (AwsService pool) \<and>
                  rd_vals d' ''source_ipam_pool_id''
                    = map_option VString (SourceIpamPoolId pool) \<and>
                  rd_vals d' ''state'' = map_option VString (State pool) \<and>
                  (\<forall>key. key \<notin> set pool_output_attributes \<longrightarrow>
                     rd_vals d' key = rd_vals d key)))) \<and>
         (\<forall>e. dataSourceVPCIpamPoolRead d conn = Inl e \<longrightarrow> is_panic e)"
proof (intro conjI allI impI)
  assume "IpamPools out = []"
  with assms show "dataSourceVPCIpamPoolRead d conn = Inr d"
    by (simp add: dataSourceVPCIpamPoolRead_def and_then_def)
next
  fix others assume "IpamPools out = None # others"
  with assms show "dataSourceVPCIpamPoolRead d conn = Inr d"
    by (simp add: dataSourceVPCIpamPoolRead_def and_then_def)
next
  fix pool others assume first: "IpamPools out = Some pool # others"
  with assms have read:
    "dataSourceVPCIpamPoolRead d conn = dataSourceVPCIpamPoolRead_pool d conn pool"
    by (simp add: dataSourceVPCIpamPoolRead_def and_then_def)
  {
    assume "IpamScopeArn pool = None"
    with read show "dataSourceVPCIpamPoolRead d conn = Inl NilDereferencePanic"
      by (simp add: dataSourceVPCIpamPoolRead_pool_panics)
  }
  {
    fix arn assume "IpamScopeArn pool = Some arn \<and> CHR ''/'' \<notin> set arn"
    with read show "dataSourceVPCIpamPoolRead d conn = Inl IndexOutOfRangePanic"
      by (simp add: dataSourceVPCIpamPoolRead_pool_panics)
  }
  {
    fix arn assume "IpamScopeArn pool = Some arn \<and> CHR ''/'' \<in> set arn"
    then have a: "IpamScopeArn pool = Some arn" "CHR ''/'' \<in> set arn" by simp_all
    from dataSourceVPCIpamPoolRead_pool_projection [OF a, of d conn] read
    show "\<exists>d'. dataSourceVPCIpamPoolRead d conn = Inr d' \<and>
                  rd_id d' = (case IpamPoolId pool of Some s \<Rightarrow> s | None \<Rightarrow> []) \<and>
                  rd_schema d' = rd_schema d \<and> rd_prior d' = rd_prior d \<and>
                  rd_vals d' ''publicly_advertisable''
                    = (case PubliclyAdvertisable pool of
                         Some b \<Rightarrow> Some (VBool b)
                       | None \<Rightarrow> rd_vals d ''publicly_advertisable'') \<and>
                  rd_vals d' ''allocation_resource_tags''
                    = Some (AllocationResourceTagsMap conn (AllocationResourceTags pool)) \<and>
                  rd_vals d' ''auto_import'' = map_option VBool (AutoImport pool) \<and>
                  rd_vals d' ''arn'' = map_option VString (IpamPoolArn pool) \<and>
                  rd_vals d' ''description'' = map_option VString (Description pool) \<and>
                  rd_vals d' ''ipam_scope_id'' = Some (VString (Split arn CHR ''/'' ! 1)) \<and>
                  rd_vals d' ''ipam_scope_type'' = map_option VString (IpamScopeType pool) \<and>
                  rd_vals d' ''locale'' = map_option VString (Locale pool) \<and>
                  rd_vals d' ''pool_depth'' = map_option VInt (PoolDepth pool) \<and>
                  rd_vals d' ''aws_service'' = map_option VString (AwsService pool) \<and>
                  rd_vals d' ''source_ipam_pool_id''
                    = map_option VString (SourceIpamPoolId pool) \<and>
                  rd_vals d' ''state'' = map_option VString (State pool) \<and>
                  (\<forall>key. key \<notin> set pool_output_attributes \<longrightarrow>
                     rd_vals d' key = rd_vals d key)"
      by simp
  }
next
  fix e assume "dataSourceVPCIpamPoolRead d conn = Inl e"
  with assms show "is_panic e"
    by (auto simp: dataSourceVPCIpamPoolRead_def and_then_def
             dest: dataSourceVPCIpamPoolRead_pool_error split: list.splits option.splits)
qed

theorem dataSourceVPCIpamPoolRead_first_record_witness:
  "dataSourceVPCIpamPoolRead_input pool_state
     (pool_conn [Some (example_pool ''ipam-pool-1''
                         ''arn:aws:ec2::123456789012:ipam-scope/ipam-scope-0a1''),
                 Some (example_pool ''ipam-pool-2''
                         ''arn:aws:ec2::123456789012:ipam-scope/ipam-scope-0b2'')])
     = Inr \<lparr>IpamPoolIds = None, Filters = None\<rparr> \<and>
   (\<exists>d'. dataSourceVPCIpamPoolRead pool_state
            (pool_conn [Some (example_pool ''ipam-pool-1''
                                ''arn:aws:ec2::123456789012:ipam-scope/ipam-scope-0a1''),
                        Some (example_pool ''ipam-pool-2''
                                ''arn:aws:ec2::123456789012:ipam-scope/ipam-scope-0b2'')])
          = Inr d' \<and>
      rd_id d' = ''ipam-pool-1'' \<and>
      rd_vals d' ''ipam_scope_id'' = Some (VString ''ipam-scope-0a1'') \<and>
      rd_vals d' ''arn'' = Some (VString ''arn:aws:ec2::123456789012:ipam-pool/ipam-pool-1'') \<and>
      rd_vals d' ''state'' = Some (VString ''create-complete'')) \<and>
   dataSourceVPCIpamPoolRead pool_state (pool_conn []) = Inr pool_state"
proof -
  let ?arn = "''arn:aws:ec2::123456789012:ipam-scope/ipam-scope-0a1''"
  let ?p = "example_pool ''ipam-pool-1'' ?arn"
  let ?q = "example_pool ''ipam-pool-2'' ''arn:aws:ec2::123456789012:ipam-scope/ipam-scope-0b2''"
  let ?conn = "pool_conn [Some ?p, Some ?q]"
  note two = dataSourceVPCIpamPoolRead_first_record
    [OF pool_state_input [of ?conn] pool_conn_answer [of "[Some ?p, Some ?q]"]]
  note none = dataSourceVPCIpamPoolRead_first_record
    [OF pool_state_input [of "pool_conn []"] pool_conn_answer [of "[]"]]
  have sel: "IpamPools \<lparr>IpamPools = [Some ?p, Some ?q]\<rparr> = Some ?p # [Some ?q]"
    by simp
  have arn: "IpamScopeArn ?p = Some ?arn \<and> CHR ''/'' \<in> set ?arn"
    by (simp add: example_pool_def)
  have seg: "Split ?arn CHR ''/'' ! 1 = ''ipam-scope-0a1''" by simp
  from two [THEN conjunct2, THEN conjunct2, THEN conjunct1, rule_format, OF sel,
      THEN conjunct2, THEN conjunct2, rule_format, OF arn]
  obtain d' where
    d': "dataSourceVPCIpamPoolRead pool_state ?conn = Inr d'"
      "rd_id d' = (case IpamPoolId ?p of Some s \<Rightarrow> s | None \<Rightarrow> [])"
      "rd_vals d' ''ipam_scope_id'' = Some (VString (Split ?arn CHR ''/'' ! 1))"
      "rd_vals d' ''arn'' = map_option VString (IpamPoolArn ?p)"
      "rd_vals d' ''state'' = map_option VString (State ?p)"
    by blast
  from d'(2,4,5) have
    "rd_id d' = ''ipam-pool-1''"
    "rd_vals d' ''arn'' = Some (VString ''arn:aws:ec2::123456789012:ipam-pool/ipam-pool-1'')"
    "rd_vals d' ''state'' = Some (VString ''create-complete'')"
    by (simp_all add: example_pool_def)
  moreover from d'(3) have "rd_vals d' ''ipam_scope_id'' = Some (VString ''ipam-scope-0a1'')"
    unfolding seg .
  moreover note d'(1)
  moreover from none have "dataSourceVPCIpamPoolRead pool_state (pool_conn []) = Inr pool_state"
    by simp
  ultimately show ?thesis using pool_state_input [of ?conn]
    by (intro conjI exI [of _ d']) simp_all
qed

end
